theory Spec2Isabelle
  imports Main "HOL-Library.Sublist" "HOL-Library.AList"
begin

section \<open>Python values used by \<open>torchgpipe/skip/skippable.py\<close>\<close>

text \<open>
  Exceptions are values. \<open>skippable.py\<close> raises \<open>RuntimeError\<close> (in \<open>forward\<close>) and
  \<open>TypeError\<close> (in \<open>dispatch\<close> and \<open>verify_skippables\<close>), each with a message;
  \<open>KeyError\<close> is what \<open>dict.pop\<close> and \<open>dict[...]\<close> raise for a missing key, and what
  \<open>forward\<close> catches around \<open>skip_tracker.load\<close>.
\<close>

datatype error = RuntimeError string | TypeError string | KeyError string

text \<open>The format \<open>"'%s'" % n\<close>: the name between two single quotes (character 0x27).\<close>

definition quoted :: "string \<Rightarrow> string" where
  "quoted n = [CHR 0x27] @ n @ [CHR 0x27]"

text \<open>\<open>sep.join(xs)\<close>.\<close>

fun join :: "string \<Rightarrow> string list \<Rightarrow> string" where
  "join sep [] = []"
| "join sep [x] = x"
| "join sep (x # y # ys) = x @ sep @ join sep (y # ys)"

text \<open>
  Modelled from the spec: class \<open>Namespace\<close> of \<open>torchgpipe.skip.namespace\<close>, which is
  imported by \<open>skippable.py\<close> and is not among the sources. The spec: an opaque identity
  token, two namespaces are equal only if they are the same instance. The number is the
  identity.
\<close>

datatype Namespace = Namespace nat

text \<open>
  Modelled from the spec: class \<open>Batch\<close> of \<open>torchgpipe.microbatch\<close>, not among the
  sources. The spec: a thin wrapper around the value (or tuple of values) that flows through
  the chain at one stage boundary; \<open>tensor_or_tensors\<close> gives the wrapped value back.
\<close>

datatype 'p Batch = Batch (tensor_or_tensors: 'p)

text \<open>
  Modelled from the spec: the skip tracker of \<open>torchgpipe.skip.tracker\<close>
  (\<open>current_skip_tracker\<close>, \<open>save\<close>, \<open>load\<close>), not among the sources. The spec: a
  mapping from (namespace, name) to a stored value that may be absent (\<open>None\<close>);
  \<open>save\<close> inserts or overwrites the slot; \<open>load\<close> removes and returns the slot and fails
  if the key is not there (with the \<open>KeyError\<close> that \<open>forward\<close> catches). The tracker that
  \<open>current_skip_tracker()\<close> returns is passed to \<open>forward\<close> and returned by it.
  The namespace of a key is an \<open>option\<close>: \<open>namespaced\<close> below can put Python's
  \<open>None\<close> there.
\<close>

type_synonym skip_key = "Namespace option \<times> string"

type_synonym 't SkipTracker = "skip_key \<rightharpoonup> 't option"

definition save ::
  "'t SkipTracker \<Rightarrow> 'p Batch \<Rightarrow> Namespace option \<Rightarrow> string \<Rightarrow> 't option \<Rightarrow> 't SkipTracker" where
  "save skip_tracker batch ns name tensor = skip_tracker((ns, name) \<mapsto> tensor)"

definition load ::
  "'t SkipTracker \<Rightarrow> 'p Batch \<Rightarrow> Namespace option \<Rightarrow> string \<Rightarrow>
   error + ('t option \<times> 't SkipTracker)" where
  "load skip_tracker batch ns name =
     (case skip_tracker (ns, name) of
        None \<Rightarrow> Inl (KeyError name)
      | Some tensor \<Rightarrow> Inr (tensor, skip_tracker((ns, name) := None)))"

section \<open>The wrapped module and its generator\<close>

text \<open>
  \<open>self.module(input)\<close> returns either an output, or a generator that yields commands.
  A generator is what it does next: it returns (\<open>StopIteration\<close> with the value), yields
  \<open>stash(name, tensor)\<close> and goes on after \<open>next\<close>, yields \<open>pop(name)\<close> and goes on with
  the tensor it is sent, or yields an object that is no command (kept by its \<open>repr\<close>).
  The type is a codatatype: a generator may yield for ever. An exception raised by the
  module's own code is not modelled.
\<close>

codatatype ('t, 'p) generator =
    Return 'p
  | YieldStash string "'t option" "('t, 'p) generator"
  | YieldPop string "'t option \<Rightarrow> ('t, 'p) generator"
  | YieldOther string

datatype ('t, 'p) module_result = Output 'p | Generator "('t, 'p) generator"

section \<open>class Skippable\<close>

text \<open>
  An instance: \<open>ident\<close> is the identity of the Python object (\<open>id(self)\<close>), \<open>module\<close>
  the wrapped module as the function from its input to what calling it returns,
  \<open>stashable_names\<close> and \<open>poppable_names\<close> the frozensets of the class (a list without
  duplicates, in the order the frozenset iterates; no theorem below depends on the order),
  \<open>namespaces\<close> the dict of \<open>__init__\<close>.
\<close>

record ('t, 'p) Skippable =
  ident :: nat
  module :: "'p \<Rightarrow> ('t, 'p) module_result"
  stashable_names :: "string list"
  poppable_names :: "string list"
  namespaces :: "string \<rightharpoonup> Namespace"

text \<open>
  \<open>skippable(stash, pop)(module_cls)(...)\<close>: the decorator freezes the two name sets
  (\<open>frozenset\<close> drops duplicates), \<open>__init__\<close> builds the module and starts with an empty
  \<open>namespaces\<close>.
\<close>

definition init ::
  "nat \<Rightarrow> ('p \<Rightarrow> ('t, 'p) module_result) \<Rightarrow> string list \<Rightarrow> string list \<Rightarrow> ('t, 'p) Skippable" where
  "init oid module_cls stash pop =
     \<lparr>ident = oid, module = module_cls, stashable_names = remdups stash,
      poppable_names = remdups pop, namespaces = Map.empty\<rparr>"

text \<open>\<open>namespaced\<close>: \<open>self.namespaces.get(name)\<close> is \<open>None\<close> for a name that is not a key.\<close>

definition namespaced :: "('t, 'p) Skippable \<Rightarrow> string \<Rightarrow> skip_key" where
  "namespaced self name = (let ns = namespaces self name in (ns, name))"

definition stashable :: "('t, 'p) Skippable \<Rightarrow> skip_key list" where
  "stashable self = map (namespaced self) (stashable_names self)"

definition poppable :: "('t, 'p) Skippable \<Rightarrow> skip_key list" where
  "poppable self = map (namespaced self) (poppable_names self)"

text \<open>
  \<open>isolate(ns, only=None)\<close>: the names are the union of the two declared sets when
  \<open>only\<close> is omitted and \<open>set(only)\<close> otherwise; each gets \<open>ns\<close> in \<open>namespaces\<close>; the
  instance itself is returned.
\<close>

definition isolate_names :: "('t, 'p) Skippable \<Rightarrow> string list option \<Rightarrow> string list" where
  "isolate_names self only =
     (case only of
        None \<Rightarrow> List.union (stashable_names self) (poppable_names self)
      | Some names \<Rightarrow> remdups names)"

definition isolate ::
  "('t, 'p) Skippable \<Rightarrow> Namespace \<Rightarrow> string list option \<Rightarrow> ('t, 'p) Skippable" where
  "isolate self ns only =
     fold (\<lambda>name s. s\<lparr>namespaces := (namespaces s)(name \<mapsto> ns)\<rparr>) (isolate_names self only) self"

section \<open>dispatch and forward\<close>

text \<open>
  The loop of \<open>dispatch\<close>. The handlers are the two callables \<open>dispatch\<close> is given;
  they change the state \<open>s\<close> they close over, or raise. The generator argument is what
  \<open>next(generator)\<close>, or \<open>generator.send(tensor)\<close>, does next. The loop runs as long
  as the generator yields: \<open>None\<close> is a call that does not return.
\<close>

partial_function (option) dispatch_loop ::
  "(string \<Rightarrow> 't option \<Rightarrow> 's \<Rightarrow> error + 's) \<Rightarrow> (string \<Rightarrow> 's \<Rightarrow> error + 't option \<times> 's) \<Rightarrow>
   ('t, 'p) generator \<Rightarrow> 's \<Rightarrow> (error + 'p \<times> 's) option" where
  "dispatch_loop handle_stash handle_pop generator s =
     (case generator of
        Return output \<Rightarrow> Some (Inr (output, s))
      | YieldStash name tensor generator' \<Rightarrow>
          (case handle_stash name tensor s of
             Inl e \<Rightarrow> Some (Inl e)
           | Inr s' \<Rightarrow> dispatch_loop handle_stash handle_pop generator' s')
      | YieldPop name send \<Rightarrow>
          (case handle_pop name s of
             Inl e \<Rightarrow> Some (Inl e)
           | Inr (tensor, s') \<Rightarrow> dispatch_loop handle_stash handle_pop (send tensor) s')
      | YieldOther r \<Rightarrow> Some (Inl (TypeError (r @ '' is not a command from @skippable''))))"

definition dispatch ::
  "('t, 'p) Skippable \<Rightarrow> 'p \<Rightarrow> (string \<Rightarrow> 't option \<Rightarrow> 's \<Rightarrow> error + 's) \<Rightarrow>
   (string \<Rightarrow> 's \<Rightarrow> error + 't option \<times> 's) \<Rightarrow> 's \<Rightarrow> (error + 'p \<times> 's) option" where
  "dispatch self input handle_stash handle_pop s =
     (case module self input of
        Output output \<Rightarrow> Some (Inr (output, s))
      | Generator generator \<Rightarrow> dispatch_loop handle_stash handle_pop generator s)"

text \<open>
  The configurations (what the generator does next, the state of the handlers) that the
  loop of \<open>dispatch\<close> passes through from a given one: the commands handled without an
  error, in order.
\<close>

inductive dispatch_reaches ::
  "(string \<Rightarrow> 't option \<Rightarrow> 's \<Rightarrow> error + 's) \<Rightarrow> (string \<Rightarrow> 's \<Rightarrow> error + 't option \<times> 's) \<Rightarrow>
   ('t, 'p) generator \<times> 's \<Rightarrow> ('t, 'p) generator \<times> 's \<Rightarrow> bool"
  for handle_stash handle_pop where
    here: "dispatch_reaches handle_stash handle_pop c c"
  | after_stash:
      "handle_stash name tensor s = Inr s' \<Longrightarrow>
       dispatch_reaches handle_stash handle_pop (generator', s') c \<Longrightarrow>
       dispatch_reaches handle_stash handle_pop (YieldStash name tensor generator', s) c"
  | after_pop:
      "handle_pop name s = Inr (tensor, s') \<Longrightarrow>
       dispatch_reaches handle_stash handle_pop (send tensor, s') c \<Longrightarrow>
       dispatch_reaches handle_stash handle_pop (YieldPop name send, s) c"

text \<open>
  The two dicts of \<open>forward\<close>, \<open>stashed_tensors\<close> and \<open>poppable_tensors\<close>, are
  association lists in insertion order (\<open>d[k] = v\<close> is \<open>AList.update\<close>, \<open>d.pop(k)\<close>
  looks the key up and deletes it); the two handlers close over them.
\<close>

type_synonym 't tensors = "(string \<times> 't option) list"

definition handle_stash ::
  "('t, 'p) Skippable \<Rightarrow> string \<Rightarrow> 't option \<Rightarrow> 't tensors \<times> 't tensors \<Rightarrow>
   error + 't tensors \<times> 't tensors" where
  "handle_stash self name tensor s =
     (case s of (stashed_tensors, poppable_tensors) \<Rightarrow>
        if name \<notin> set (stashable_names self)
        then Inl (RuntimeError (quoted name @ '' has not been declared as stashable''))
        else Inr (AList.update name tensor stashed_tensors, poppable_tensors))"

definition handle_pop ::
  "('t, 'p) Skippable \<Rightarrow> string \<Rightarrow> 't tensors \<times> 't tensors \<Rightarrow>
   error + 't option \<times> 't tensors \<times> 't tensors" where
  "handle_pop self name s =
     (case s of (stashed_tensors, poppable_tensors) \<Rightarrow>
        if name \<notin> set (poppable_names self)
        then Inl (RuntimeError (quoted name @ '' has not been declared as poppable''))
        else (case map_of poppable_tensors name of
                None \<Rightarrow> Inl (KeyError name)
              | Some tensor \<Rightarrow> Inr (tensor, stashed_tensors, AList.delete name poppable_tensors)))"

text \<open>
  The first loop of \<open>forward\<close>: every poppable key is loaded from the tracker; a
  \<open>KeyError\<close> of \<open>load\<close> becomes the \<open>RuntimeError\<close>. The tracker is returned as the
  loads so far have left it.
\<close>

fun load_poppable ::
  "'t SkipTracker \<Rightarrow> 'p Batch \<Rightarrow> skip_key list \<Rightarrow> 't tensors \<Rightarrow>
   (error + 't tensors) \<times> 't SkipTracker" where
  "load_poppable skip_tracker batch [] poppable_tensors = (Inr poppable_tensors, skip_tracker)"
| "load_poppable skip_tracker batch ((ns, name) # keys) poppable_tensors =
     (case load skip_tracker batch ns name of
        Inl (KeyError k) \<Rightarrow>
          (Inl (RuntimeError (quoted name @ '' has not been stashed'')), skip_tracker)
      | Inl e \<Rightarrow> (Inl e, skip_tracker)
      | Inr (tensor, skip_tracker') \<Rightarrow>
          load_poppable skip_tracker' batch keys (AList.update name tensor poppable_tensors))"

text \<open>The last loop of \<open>forward\<close>: every stashable key is saved into the tracker.\<close>

fun save_stashed ::
  "'t SkipTracker \<Rightarrow> 'p Batch \<Rightarrow> 't tensors \<Rightarrow> skip_key list \<Rightarrow>
   (error + unit) \<times> 't SkipTracker" where
  "save_stashed skip_tracker batch stashed_tensors [] = (Inr (), skip_tracker)"
| "save_stashed skip_tracker batch stashed_tensors ((ns, name) # keys) =
     (case map_of stashed_tensors name of
        None \<Rightarrow> (Inl (KeyError name), skip_tracker)
      | Some tensor \<Rightarrow>
          save_stashed (save skip_tracker batch ns name tensor) batch stashed_tensors keys)"

text \<open>
  \<open>not_stashed = self.stashable_names - stashed_tensors.keys()\<close> and
  \<open>not_popped = poppable_tensors.keys()\<close>.
\<close>

definition not_stashed :: "('t, 'p) Skippable \<Rightarrow> 't tensors \<Rightarrow> string list" where
  "not_stashed self stashed_tensors =
     filter (\<lambda>n. n \<notin> set (map fst stashed_tensors)) (stashable_names self)"

definition not_popped :: "'t tensors \<Rightarrow> string list" where
  "not_popped poppable_tensors = map fst poppable_tensors"

text \<open>
  \<open>forward\<close>, with the tracker of \<open>current_skip_tracker()\<close> as an argument and, with the
  output or the error, as a result.
\<close>

definition forward ::
  "('t, 'p) Skippable \<Rightarrow> 't SkipTracker \<Rightarrow> 'p \<Rightarrow> ((error + 'p) \<times> 't SkipTracker) option" where
  "forward self skip_tracker input =
     (case load_poppable skip_tracker (Batch input) (poppable self) [] of
        (Inl e, skip_tracker1) \<Rightarrow> Some (Inl e, skip_tracker1)
      | (Inr poppable_tensors, skip_tracker1) \<Rightarrow>
          (case dispatch self (tensor_or_tensors (Batch input)) (handle_stash self) (handle_pop self)
                  ([], poppable_tensors) of
             None \<Rightarrow> None
           | Some (Inl e) \<Rightarrow> Some (Inl e, skip_tracker1)
           | Some (Inr (output, stashed_tensors, poppable_tensors')) \<Rightarrow>
               if not_stashed self stashed_tensors \<noteq> []
               then Some (Inl (RuntimeError
                      (join '', '' (map quoted (not_stashed self stashed_tensors)) @
                       '' must be stashed but have not'')), skip_tracker1)
               else if not_popped poppable_tensors' \<noteq> []
               then Some (Inl (RuntimeError
                      (join '', '' (map quoted (not_popped poppable_tensors')) @
                       '' must be popped but have not'')), skip_tracker1)
               else (case save_stashed skip_tracker1 (Batch output) stashed_tensors (stashable self) of
                       (Inl e, skip_tracker2) \<Rightarrow> Some (Inl e, skip_tracker2)
                     | (Inr u, skip_tracker2) \<Rightarrow>
                         Some (Inr (tensor_or_tensors (Batch output)), skip_tracker2))))"

section \<open>verify_skippables\<close>

text \<open>
  A child of the \<open>nn.Sequential\<close> is a \<open>Skippable\<close> or some other module; the
  sequential is the list of (name, child) pairs that \<open>named_children()\<close> yields.
\<close>

datatype ('t, 'p) layer = SkippableLayer "('t, 'p) Skippable" | OtherLayer

text \<open>
  The state of the scan: the sets \<open>stashed\<close> and \<open>popped\<close> (lists without duplicates;
  \<open>add\<close> is \<open>List.insert\<close>) and the list \<open>msgs\<close>.
\<close>

record verify_state =
  stashed :: "skip_key list"
  popped :: "skip_key list"
  msgs :: "string list"

definition msg_both :: "string \<Rightarrow> string \<Rightarrow> string" where
  "msg_both layer_name name =
     quoted layer_name @ '' declared '' @ quoted name @ '' both as stashable and as poppable''"

definition msg_redeclared_stashable :: "string \<Rightarrow> string \<Rightarrow> string" where
  "msg_redeclared_stashable layer_name name =
     quoted layer_name @ '' redeclared '' @ quoted name @ '' as stashable''"

definition msg_redeclared_poppable :: "string \<Rightarrow> string \<Rightarrow> string" where
  "msg_redeclared_poppable layer_name name =
     quoted layer_name @ '' redeclared '' @ quoted name @ '' as poppable''"

definition msg_not_stashed :: "string \<Rightarrow> string \<Rightarrow> string" where
  "msg_not_stashed layer_name name =
     quoted layer_name @ '' declared '' @ quoted name @ '' as poppable but it was not stashed''"

definition msg_not_poppable :: "string \<Rightarrow> string" where
  "msg_not_poppable name = ''any module did not declare '' @ quoted name @ '' as poppable''"

text \<open>The loop over \<open>layer.stashable_names & layer.poppable_names\<close>.\<close>

definition verify_both :: "string \<Rightarrow> ('t, 'p) Skippable \<Rightarrow> verify_state \<Rightarrow> verify_state" where
  "verify_both layer_name layer st =
     fold (\<lambda>name st. st\<lparr>msgs := msgs st @ [msg_both layer_name name]\<rparr>)
       (filter (\<lambda>name. name \<in> set (poppable_names layer)) (stashable_names layer)) st"

text \<open>The body of the loop over \<open>layer.stashable()\<close>.\<close>

definition verify_stash ::
  "string \<Rightarrow> ('t, 'p) Skippable \<Rightarrow> skip_key \<Rightarrow> verify_state \<Rightarrow> verify_state" where
  "verify_stash layer_name layer key st =
     (case key of (ns, name) \<Rightarrow>
        if name \<in> set (poppable_names layer) then st
        else if (ns, name) \<in> set (stashed st)
        then st\<lparr>msgs := msgs st @ [msg_redeclared_stashable layer_name name]\<rparr>
        else st\<lparr>stashed := List.insert (ns, name) (stashed st)\<rparr>)"

text \<open>The body of the loop over \<open>layer.poppable()\<close>.\<close>

definition verify_pop ::
  "string \<Rightarrow> ('t, 'p) Skippable \<Rightarrow> skip_key \<Rightarrow> verify_state \<Rightarrow> verify_state" where
  "verify_pop layer_name layer key st =
     (case key of (ns, name) \<Rightarrow>
        if name \<in> set (stashable_names layer) then st
        else if (ns, name) \<in> set (popped st)
        then st\<lparr>msgs := msgs st @ [msg_redeclared_poppable layer_name name]\<rparr>
        else if (ns, name) \<notin> set (stashed st)
        then st\<lparr>msgs := msgs st @ [msg_not_stashed layer_name name]\<rparr>
        else st\<lparr>popped := List.insert (ns, name) (popped st)\<rparr>)"

text \<open>The body of the loop over \<open>module.named_children()\<close>.\<close>

definition verify_layer :: "string \<times> ('t, 'p) layer \<Rightarrow> verify_state \<Rightarrow> verify_state" where
  "verify_layer child st =
     (case child of
        (layer_name, OtherLayer) \<Rightarrow> st
      | (layer_name, SkippableLayer layer) \<Rightarrow>
          fold (verify_pop layer_name layer) (poppable layer)
            (fold (verify_stash layer_name layer) (stashable layer)
               (verify_both layer_name layer st)))"

definition verify_scan :: "(string \<times> ('t, 'p) layer) list \<Rightarrow> verify_state" where
  "verify_scan children = fold verify_layer children \<lparr>stashed = [], popped = [], msgs = []\<rparr>"

text \<open>All the messages: those of the scan, then one for every key of \<open>stashed - popped\<close>.\<close>

definition verify_msgs :: "(string \<times> ('t, 'p) layer) list \<Rightarrow> string list" where
  "verify_msgs children =
     (let st = verify_scan children
      in msgs st @
         map (\<lambda>(ns, name). msg_not_poppable name)
           (filter (\<lambda>key. key \<notin> set (popped st)) (stashed st)))"

definition verify_error :: "string list \<Rightarrow> string" where
  "verify_error ms =
     ''one or more pairs of stash and pop not matched:'' @ [CHR 0x0A, CHR 0x0A] @
     join [CHR 0x0A] (map (\<lambda>x. ''* '' @ x) ms)"

definition verify_skippables :: "(string \<times> ('t, 'p) layer) list \<Rightarrow> error + unit" where
  "verify_skippables children =
     (if verify_msgs children \<noteq> [] then Inl (TypeError (verify_error (verify_msgs children)))
      else Inr ())"

section \<open>Namespaces\<close>

lemma isolate_fold_namespaces:
  "namespaces (fold (\<lambda>name s. s\<lparr>namespaces := (namespaces s)(name \<mapsto> ns)\<rparr>) names self) n =
     (if n \<in> set names then Some ns else namespaces self n)"
  by (induction names arbitrary: self) auto

lemma isolate_fold_frame:
  "ident (fold (\<lambda>name s. s\<lparr>namespaces := (namespaces s)(name \<mapsto> ns)\<rparr>) names self) = ident self \<and>
   stashable_names (fold (\<lambda>name s. s\<lparr>namespaces := (namespaces s)(name \<mapsto> ns)\<rparr>) names self) =
     stashable_names self \<and>
   poppable_names (fold (\<lambda>name s. s\<lparr>namespaces := (namespaces s)(name \<mapsto> ns)\<rparr>) names self) =
     poppable_names self \<and>
   module (fold (\<lambda>name s. s\<lparr>namespaces := (namespaces s)(name \<mapsto> ns)\<rparr>) names self) = module self"
  by (induction names arbitrary: self) auto

lemma set_isolate_names:
  "set (isolate_names self only) =
     (case only of None \<Rightarrow> set (stashable_names self) \<union> set (poppable_names self)
      | Some names \<Rightarrow> set names)"
  by (simp add: isolate_names_def split: option.split)

lemma namespaces_isolate:
  "namespaces (isolate self ns only) n =
     (if n \<in> set (isolate_names self only) then Some ns else namespaces self n)"
  by (simp add: isolate_def isolate_fold_namespaces)

lemma isolate_frame:
  "ident (isolate self ns only) = ident self \<and>
   module (isolate self ns only) = module self \<and>
   stashable_names (isolate self ns only) = stashable_names self \<and>
   poppable_names (isolate self ns only) = poppable_names self"
  unfolding isolate_def using isolate_fold_frame [of ns "isolate_names self only" self] by simp

lemma isolate_calls_untouched:
  "list_all (\<lambda>(ns, only). n \<notin> set (isolate_names self only)) calls \<Longrightarrow>
   stashable_names self' = stashable_names self \<Longrightarrow> poppable_names self' = poppable_names self \<Longrightarrow>
   namespaces (fold (\<lambda>(ns, only) s. isolate s ns only) calls self') n = namespaces self' n"
proof (induction calls arbitrary: self')
  case Nil
  then show ?case by simp
next
  case (Cons c calls)
  obtain ns only where c: "c = (ns, only)" by (cases c)
  have names: "isolate_names self' only = isolate_names self only"
    using Cons.prems by (cases only) (simp_all add: isolate_names_def)
  have frame: "stashable_names (isolate self' ns only) = stashable_names self \<and>
               poppable_names (isolate self' ns only) = poppable_names self"
    using Cons.prems by (simp add: isolate_frame)
  have "namespaces (fold (\<lambda>(ns, only) s. isolate s ns only) calls (isolate self' ns only)) n =
        namespaces (isolate self' ns only) n"
    using Cons.IH [of "isolate self' ns only"] Cons.prems frame by simp
  also have "\<dots> = namespaces self' n"
    using Cons.prems c names by (simp add: namespaces_isolate)
  finally show ?case by (simp add: c)
qed

text \<open>
  C1, as amended. The claim says that the key of a name on which \<open>isolate\<close> was never
  called is scoped to the identity of the instance. In the code the namespace of such a
  name is \<open>None\<close> for every instance: after \<open>__init__\<close> and any calls of \<open>isolate\<close>
  none of which names \<open>n\<close>, the key of \<open>n\<close> is \<open>(None, n)\<close>, whatever the identity of
  the instance, so two instances address the same tracker slot for \<open>n\<close>.
\<close>

theorem C1_default_namespace_is_None:
  assumes "list_all (\<lambda>(ns, only). n \<notin> set (isolate_names (init oid m stash pop) only)) calls"
  shows "namespaced (fold (\<lambda>(ns, only) s. isolate s ns only) calls (init oid m stash pop)) n
           = (None, n)"
proof -
  have "namespaces (fold (\<lambda>(ns, only) s. isolate s ns only) calls (init oid m stash pop)) n =
        namespaces (init oid m stash pop) n"
    using assms by (rule isolate_calls_untouched) simp_all
  then show ?thesis by (simp add: namespaced_def init_def)
qed

text \<open>
  C1, a witness: \<open>isolate\<close> is called for \<open>y\<close> only; the key of \<open>x\<close> has no namespace
  and that of \<open>y\<close> has the one it was isolated into.
\<close>

theorem C1_default_namespace_is_None_witness:
  "namespaced (fold (\<lambda>(ns, only) s. isolate s ns only) [(Namespace 7, Some [''y''])]
       (init 1 (\<lambda>x::nat. (Output x :: (nat, nat) module_result)) [''x'', ''y''] [])) ''x''
     = (None, ''x'') \<and>
   namespaced (fold (\<lambda>(ns, only) s. isolate s ns only) [(Namespace 7, Some [''y''])]
       (init 1 (\<lambda>x::nat. (Output x :: (nat, nat) module_result)) [''x'', ''y''] [])) ''y''
     = (Some (Namespace 7), ''y'')"
proof -
  have "namespaced (fold (\<lambda>(ns, only) s. isolate s ns only) [(Namespace 7, Some [''y''])]
       (init 1 (\<lambda>x::nat. (Output x :: (nat, nat) module_result)) [''x'', ''y''] [])) ''x''
     = (None, ''x'')"
    by (rule C1_default_namespace_is_None) (simp add: isolate_names_def)
  then show ?thesis
    by (simp add: namespaced_def isolate_def isolate_names_def init_def)
qed

text \<open>
  C1, the counterexample: two instances of one stage type with different identities, on
  neither of which \<open>isolate\<close> was called, have the same key for the name \<open>x\<close>.
\<close>

theorem C1_distinct_instances_share_key:
  "ident (init 1 (\<lambda>x::nat. (Output x :: (nat, nat) module_result)) [''x''] []) \<noteq>
   ident (init 2 (\<lambda>x::nat. (Output x :: (nat, nat) module_result)) [''x''] []) \<and>
   namespaced (init 1 (\<lambda>x::nat. (Output x :: (nat, nat) module_result)) [''x''] []) ''x'' =
   namespaced (init 2 (\<lambda>x::nat. (Output x :: (nat, nat) module_result)) [''x''] []) ''x''"
  by (simp add: namespaced_def init_def)

text \<open>
  C9: \<open>isolate(ns, only)\<close> sets the namespace of exactly the names of \<open>only\<close> (of the
  union of the two declared sets when \<open>only\<close> is omitted) to \<open>ns\<close> and leaves every
  other entry as it was; no name is checked against the declarations (the function has no
  failing branch and any list of names is accepted); the instance returned is the same
  one: its identity, module and declared names are unchanged.
\<close>

theorem C9_isolate:
  "namespaces (isolate self ns only) n =
     (if n \<in> (case only of None \<Rightarrow> set (stashable_names self) \<union> set (poppable_names self)
                | Some names \<Rightarrow> set names)
      then Some ns else namespaces self n) \<and>
   ident (isolate self ns only) = ident self \<and>
   module (isolate self ns only) = module self \<and>
   stashable_names (isolate self ns only) = stashable_names self \<and>
   poppable_names (isolate self ns only) = poppable_names self"
  by (simp add: namespaces_isolate set_isolate_names isolate_frame)

section \<open>forward\<close>

lemma namespaced_snd [simp]: "snd (namespaced self n) = n"
  by (simp add: namespaced_def)

lemma namespaced_inj: "namespaced self n = namespaced self n' \<longleftrightarrow> n = n'"
  by (auto simp: namespaced_def)

lemma update_fresh: "k \<notin> fst ` set al \<Longrightarrow> AList.update k v al = al @ [(k, v)]"
  by (induction al) auto

lemma load_poppable_ok:
  "distinct names \<Longrightarrow> set names \<inter> fst ` set acc = {} \<Longrightarrow>
   \<forall>n\<in>set names. tr (namespaced self n) \<noteq> None \<Longrightarrow>
   load_poppable tr b (map (namespaced self) names) acc =
     (Inr (acc @ map (\<lambda>n. (n, the (tr (namespaced self n)))) names),
      (\<lambda>k. if k \<in> set (map (namespaced self) names) then None else tr k))"
proof (induction names arbitrary: tr acc)
  case Nil
  then show ?case by simp
next
  case (Cons n names)
  obtain v where v: "tr (namespaced self n) = Some v" using Cons.prems by auto
  let ?tr = "tr(namespaced self n := None)"
  let ?acc = "acc @ [(n, v)]"
  have fresh: "n \<notin> fst ` set acc" using Cons.prems by auto
  have agree: "\<forall>m\<in>set names. ?tr (namespaced self m) = tr (namespaced self m)"
    using Cons.prems by (auto simp: namespaced_inj)
  have step: "load_poppable tr b (map (namespaced self) (n # names)) acc =
              load_poppable ?tr b (map (namespaced self) names) ?acc"
    using v fresh by (simp add: namespaced_def load_def update_fresh)
  have "load_poppable ?tr b (map (namespaced self) names) ?acc =
     (Inr (?acc @ map (\<lambda>m. (m, the (?tr (namespaced self m)))) names),
      (\<lambda>k. if k \<in> set (map (namespaced self) names) then None else ?tr k))"
    using Cons.prems agree by (intro Cons.IH) auto
  moreover have "map (\<lambda>m. (m, the (?tr (namespaced self m)))) names =
                 map (\<lambda>m. (m, the (tr (namespaced self m)))) names"
    using agree by simp
  moreover have "(\<lambda>k. if k \<in> set (map (namespaced self) names) then None else ?tr k) =
                 (\<lambda>k. if k \<in> set (map (namespaced self) (n # names)) then None else tr k)"
    by (rule ext) auto
  ultimately show ?case using step v by simp
qed

lemma load_poppable_fail:
  "distinct names \<Longrightarrow> \<exists>n\<in>set names. tr (namespaced self n) = None \<Longrightarrow>
   \<exists>n tr'. n \<in> set names \<and> tr (namespaced self n) = None \<and>
     load_poppable tr b (map (namespaced self) names) acc =
       (Inl (RuntimeError (quoted n @ '' has not been stashed'')), tr')"
proof (induction names arbitrary: tr acc)
  case Nil
  then show ?case by simp
next
  case (Cons n names)
  show ?case
  proof (cases "tr (namespaced self n)")
    case None
    then have "load_poppable tr b (map (namespaced self) (n # names)) acc =
       (Inl (RuntimeError (quoted n @ '' has not been stashed'')), tr)"
      by (simp add: namespaced_def load_def)
    with None show ?thesis by auto
  next
    case (Some v)
    let ?tr = "tr(namespaced self n := None)"
    have agree: "\<forall>m\<in>set names. ?tr (namespaced self m) = tr (namespaced self m)"
      using Cons.prems by (auto simp: namespaced_inj)
    have step: "load_poppable tr b (map (namespaced self) (n # names)) acc =
              load_poppable ?tr b (map (namespaced self) names) (AList.update n v acc)"
      using Some by (simp add: namespaced_def load_def)
    have ex: "\<exists>m\<in>set names. ?tr (namespaced self m) = None"
      using Cons.prems Some agree by auto
    have d: "distinct names" using Cons.prems by simp
    obtain m tr' where m: "m \<in> set names" "?tr (namespaced self m) = None"
       "load_poppable ?tr b (map (namespaced self) names) (AList.update n v acc) =
          (Inl (RuntimeError (quoted m @ '' has not been stashed'')), tr')"
      using Cons.IH [OF d ex, of "AList.update n v acc"] by blast
    then have "tr (namespaced self m) = None" using agree by auto
    with m step show ?thesis by auto
  qed
qed

lemma dispatch_loop_Return: "dispatch_loop hs hp (Return v) s = Some (Inr (v, s))"
  by (subst dispatch_loop.simps) simp

lemma dispatch_loop_YieldStash:
  "dispatch_loop hs hp (YieldStash name tensor g) s =
     (case hs name tensor s of Inl e \<Rightarrow> Some (Inl e) | Inr s' \<Rightarrow> dispatch_loop hs hp g s')"
  by (subst dispatch_loop.simps) simp

lemma dispatch_loop_YieldPop:
  "dispatch_loop hs hp (YieldPop name send) s =
     (case hp name s of Inl e \<Rightarrow> Some (Inl e)
      | Inr (tensor, s') \<Rightarrow> dispatch_loop hs hp (send tensor) s')"
  by (subst dispatch_loop.simps) simp

lemma dispatch_loop_YieldOther:
  "dispatch_loop hs hp (YieldOther r) s =
     Some (Inl (TypeError (r @ '' is not a command from @skippable'')))"
  by (subst dispatch_loop.simps) simp

lemma dispatch_reaches_loop:
  "dispatch_reaches hs hp c c' \<Longrightarrow>
   dispatch_loop hs hp (fst c) (snd c) = dispatch_loop hs hp (fst c') (snd c')"
  by (induction rule: dispatch_reaches.induct)
     (simp_all add: dispatch_loop_YieldStash dispatch_loop_YieldPop)

lemma forward_dispatch_error:
  assumes "load_poppable skip_tracker (Batch input) (poppable self) [] =
             (Inr poppable_tensors, skip_tracker1)"
    and "dispatch self input (handle_stash self) (handle_pop self) ([], poppable_tensors) =
           Some (Inl e)"
  shows "forward self skip_tracker input = Some (Inl e, skip_tracker1)"
  using assms by (simp add: forward_def)

lemma forward_dispatch_done:
  assumes "load_poppable skip_tracker (Batch input) (poppable self) [] =
             (Inr poppable_tensors, skip_tracker1)"
    and "dispatch self input (handle_stash self) (handle_pop self) ([], poppable_tensors) =
           Some (Inr (output, stashed_tensors, poppable_tensors'))"
  shows "forward self skip_tracker input =
     (if not_stashed self stashed_tensors \<noteq> []
      then Some (Inl (RuntimeError
             (join '', '' (map quoted (not_stashed self stashed_tensors)) @
              '' must be stashed but have not'')), skip_tracker1)
      else if not_popped poppable_tensors' \<noteq> []
      then Some (Inl (RuntimeError
             (join '', '' (map quoted (not_popped poppable_tensors')) @
              '' must be popped but have not'')), skip_tracker1)
      else (case save_stashed skip_tracker1 (Batch output) stashed_tensors (stashable self) of
              (Inl e, skip_tracker2) \<Rightarrow> Some (Inl e, skip_tracker2)
            | (Inr u, skip_tracker2) \<Rightarrow> Some (Inr output, skip_tracker2)))"
  using assms by (simp add: forward_def split: prod.split sum.split)

text \<open>
  C7: in a call of \<open>forward\<close> whose loads succeeded, when the loop of \<open>dispatch\<close> comes
  to a \<open>stash\<close> command whose name is not in \<open>stashable_names\<close>, the call fails with
  the \<open>RuntimeError\<close> saying that the name has not been declared as stashable; when it
  comes to a \<open>pop\<close> command whose name is not in \<open>poppable_names\<close>, the call fails with
  the \<open>RuntimeError\<close> saying that the name has not been declared as poppable.
\<close>

theorem C7_undeclared_names:
  assumes "load_poppable skip_tracker (Batch input) (poppable self) [] =
             (Inr poppable_tensors, skip_tracker1)"
    and "module self input = Generator generator0"
    and "dispatch_reaches (handle_stash self) (handle_pop self)
           (generator0, ([], poppable_tensors)) (generator, s)"
  shows "(generator = YieldStash name tensor generator' \<and> name \<notin> set (stashable_names self) \<longrightarrow>
            forward self skip_tracker input =
              Some (Inl (RuntimeError (quoted name @ '' has not been declared as stashable'')),
                    skip_tracker1)) \<and>
         (generator = YieldPop name send \<and> name \<notin> set (poppable_names self) \<longrightarrow>
            forward self skip_tracker input =
              Some (Inl (RuntimeError (quoted name @ '' has not been declared as poppable'')),
                    skip_tracker1))"
proof -
  have loop: "dispatch self input (handle_stash self) (handle_pop self) ([], poppable_tensors) =
              dispatch_loop (handle_stash self) (handle_pop self) generator s"
    using dispatch_reaches_loop [OF assms(3)] assms(2) by (simp add: dispatch_def)
  have st: "generator = YieldStash name tensor generator' \<Longrightarrow> name \<notin> set (stashable_names self) \<Longrightarrow>
      dispatch_loop (handle_stash self) (handle_pop self) generator s =
        Some (Inl (RuntimeError (quoted name @ '' has not been declared as stashable'')))"
    by (cases s) (simp add: dispatch_loop_YieldStash handle_stash_def)
  have po: "generator = YieldPop name send \<Longrightarrow> name \<notin> set (poppable_names self) \<Longrightarrow>
      dispatch_loop (handle_stash self) (handle_pop self) generator s =
        Some (Inl (RuntimeError (quoted name @ '' has not been declared as poppable'')))"
    by (cases s) (simp add: dispatch_loop_YieldPop handle_pop_def)
  show ?thesis
    using forward_dispatch_error [OF assms(1)] loop st po by simp
qed

text \<open>
  C7, a witness: a stage that stashes the declared \<open>x\<close> and then the undeclared \<open>u\<close>,
  and a stage that pops the undeclared \<open>w\<close>.
\<close>

theorem C7_undeclared_names_witness:
  "forward (init 1 (\<lambda>x::nat. Generator (YieldStash ''x'' (Some x) (YieldStash ''u'' None (Return x))))
              [''x''] [])
      (Map.empty :: nat SkipTracker) 5 =
     Some (Inl (RuntimeError (quoted ''u'' @ '' has not been declared as stashable'')), Map.empty) \<and>
   forward (init 2 (\<lambda>x::nat. Generator (YieldPop ''w'' (\<lambda>t::nat option. Return x))) [] [])
      (Map.empty :: nat SkipTracker) 5 =
     Some (Inl (RuntimeError (quoted ''w'' @ '' has not been declared as poppable'')), Map.empty)"
proof -
  let ?S = "init 1 (\<lambda>x::nat. Generator (YieldStash ''x'' (Some x)
               (YieldStash ''u'' None (Return x)) :: (nat, nat) generator)) [''x''] []"
  let ?P = "init 2 (\<lambda>x::nat. Generator (YieldPop ''w'' (\<lambda>t::nat option. Return x)
               :: (nat, nat) generator)) [] []"
  let ?E = "Map.empty :: nat SkipTracker"
  have loadS: "load_poppable ?E (Batch (5::nat)) (poppable ?S) [] = (Inr [], ?E)"
    by (simp add: poppable_def init_def)
  have modS: "module ?S 5 = Generator (YieldStash ''x'' (Some 5) (YieldStash ''u'' None (Return 5)))"
    by (simp add: init_def)
  have hs: "handle_stash ?S ''x'' (Some 5) ([], []) = Inr ([(''x'', Some 5)], [])"
    by (simp add: handle_stash_def init_def)
  have reachS: "dispatch_reaches (handle_stash ?S) (handle_pop ?S)
      (YieldStash ''x'' (Some 5) (YieldStash ''u'' None (Return 5)), ([], []))
      (YieldStash ''u'' None (Return 5), ([(''x'', Some 5)], []))"
    by (rule after_stash, rule hs, rule here)
  have uS: "''u'' \<notin> set (stashable_names ?S)" by (simp add: init_def)
  have loadP: "load_poppable ?E (Batch (5::nat)) (poppable ?P) [] = (Inr [], ?E)"
    by (simp add: poppable_def init_def)
  have modP: "module ?P 5 = Generator (YieldPop ''w'' (\<lambda>t. Return 5))"
    by (simp add: init_def)
  have reachP: "dispatch_reaches (handle_stash ?P) (handle_pop ?P)
      (YieldPop ''w'' (\<lambda>t. Return 5), ([], [])) (YieldPop ''w'' (\<lambda>t. Return 5), ([], []))"
    by (rule here)
  have wP: "''w'' \<notin> set (poppable_names ?P)" by (simp add: init_def)
  from C7_undeclared_names [OF loadS modS reachS, where name = "''u''" and tensor = None
      and generator' = "Return 5"] uS
  have 1: "forward ?S ?E 5 =
     Some (Inl (RuntimeError (quoted ''u'' @ '' has not been declared as stashable'')), ?E)"
    by simp
  from C7_undeclared_names [OF loadP modP reachP, where name = "''w''"
      and send = "\<lambda>t. Return 5"] wP
  have 2: "forward ?P ?E 5 =
     Some (Inl (RuntimeError (quoted ''w'' @ '' has not been declared as poppable'')), ?E)"
    by simp
  from 1 2 show ?thesis by simp
qed

text \<open>
  C8: when the module returns an output that is no generator, or a generator that returns
  without yielding, \<open>dispatch\<close> returns the value unchanged; no handler is called (the
  state the handlers close over is as it was, whatever the handlers are), so nothing is
  injected. For a stage with no declared names, \<open>forward\<close> returns the value and leaves
  the tracker as it was.
\<close>

theorem C8_dispatch_fast_path:
  assumes "module self input = Output v \<or> module self input = Generator (Return v)"
  shows "dispatch self input hs hp s = Some (Inr (v, s)) \<and>
         (stashable_names self = [] \<and> poppable_names self = [] \<longrightarrow>
            forward self skip_tracker input = Some (Inr v, skip_tracker))"
proof -
  have d: "dispatch self input hs hp s = Some (Inr (v, s))" for hs hp and s :: 's
    using assms by (auto simp: dispatch_def dispatch_loop_Return)
  have "forward self skip_tracker input = Some (Inr v, skip_tracker)"
    if "stashable_names self = []" "poppable_names self = []"
    using that d [of "handle_stash self" "handle_pop self" "([], [])"]
    by (simp add: forward_def poppable_def stashable_def not_stashed_def not_popped_def)
  with d show ?thesis by simp
qed

text \<open>C8, a witness: a stage with no skip names whose module returns its input plus one.\<close>

theorem C8_dispatch_fast_path_witness:
  "dispatch (init 1 (\<lambda>x::nat. (Output (x + 1) :: (nat, nat) module_result)) [] []) 5
      (handle_stash (init 1 (\<lambda>x::nat. (Output (x + 1) :: (nat, nat) module_result)) [] []))
      (handle_pop (init 1 (\<lambda>x::nat. (Output (x + 1) :: (nat, nat) module_result)) [] []))
      ([], []) = Some (Inr (6, [], [])) \<and>
   forward (init 1 (\<lambda>x::nat. (Output (x + 1) :: (nat, nat) module_result)) [] [])
      (Map.empty((None, ''k'') \<mapsto> Some 1)) 5 = Some (Inr 6, Map.empty((None, ''k'') \<mapsto> Some 1))"
proof -
  let ?S = "init 1 (\<lambda>x::nat. (Output (x + 1) :: (nat, nat) module_result)) [] []"
  have m: "module ?S 5 = Output 6 \<or> module ?S 5 = Generator (Return 6)" by (simp add: init_def)
  have n: "stashable_names ?S = [] \<and> poppable_names ?S = []" by (simp add: init_def)
  from C8_dispatch_fast_path [OF m, of "handle_stash ?S" "handle_pop ?S" "([], [])"
      "Map.empty((None, ''k'') \<mapsto> Some 1)"] n
  show ?thesis by simp
qed

lemma map_of_map_self: "n \<in> set names \<Longrightarrow> map_of (map (\<lambda>n. (n, f n)) names) n = Some (f n)"
  by (induction names) auto

text \<open>
  C6: before the computation runs, \<open>forward\<close> loads every key of the poppable set from
  the tracker (the names of a frozenset are distinct). When every key is in the tracker, the
  loop returns the value of each poppable name, in the order of the names, and has removed
  the keys from the tracker. When some key is absent, the call fails, whatever the module,
  with the \<open>RuntimeError\<close> saying that a poppable name whose key is absent has not been
  stashed.
\<close>

theorem C6_load_poppable:
  assumes "distinct (poppable_names self)"
  shows "((\<forall>key\<in>set (poppable self). skip_tracker key \<noteq> None) \<longrightarrow>
           (\<exists>poppable_tensors.
              load_poppable skip_tracker (Batch input) (poppable self) [] =
                (Inr poppable_tensors,
                 (\<lambda>key. if key \<in> set (poppable self) then None else skip_tracker key)) \<and>
              map fst poppable_tensors = poppable_names self \<and>
              (\<forall>name\<in>set (poppable_names self).
                 map_of poppable_tensors name = skip_tracker (namespaced self name)))) \<and>
         ((\<exists>key\<in>set (poppable self). skip_tracker key = None) \<longrightarrow>
           (\<exists>name skip_tracker1. name \<in> set (poppable_names self) \<and>
              skip_tracker (namespaced self name) = None \<and>
              forward self skip_tracker input =
                Some (Inl (RuntimeError (quoted name @ '' has not been stashed'')), skip_tracker1)))"
proof (intro conjI impI)
  assume all: "\<forall>key\<in>set (poppable self). skip_tracker key \<noteq> None"
  let ?pt = "map (\<lambda>n. (n, the (skip_tracker (namespaced self n)))) (poppable_names self)"
  have "load_poppable skip_tracker (Batch input) (map (namespaced self) (poppable_names self)) [] =
     (Inr ([] @ ?pt),
      (\<lambda>k. if k \<in> set (map (namespaced self) (poppable_names self)) then None else skip_tracker k))"
    using assms all by (intro load_poppable_ok) (auto simp: poppable_def)
  then have 1: "load_poppable skip_tracker (Batch input) (poppable self) [] =
      (Inr ?pt, (\<lambda>key. if key \<in> set (poppable self) then None else skip_tracker key))"
    by (simp add: poppable_def)
  have 2: "map fst ?pt = poppable_names self" by (simp add: comp_def)
  have 3: "\<forall>name\<in>set (poppable_names self). map_of ?pt name = skip_tracker (namespaced self name)"
    using all by (auto simp: map_of_map_self poppable_def)
  from 1 2 3 show "\<exists>poppable_tensors.
              load_poppable skip_tracker (Batch input) (poppable self) [] =
                (Inr poppable_tensors,
                 (\<lambda>key. if key \<in> set (poppable self) then None else skip_tracker key)) \<and>
              map fst poppable_tensors = poppable_names self \<and>
              (\<forall>name\<in>set (poppable_names self).
                 map_of poppable_tensors name = skip_tracker (namespaced self name))"
    by blast
next
  assume "\<exists>key\<in>set (poppable self). skip_tracker key = None"
  then have "\<exists>n\<in>set (poppable_names self). skip_tracker (namespaced self n) = None"
    by (auto simp: poppable_def)
  from load_poppable_fail [OF assms this, of "Batch input" "[]"]
  obtain n tr' where n: "n \<in> set (poppable_names self)" "skip_tracker (namespaced self n) = None"
    "load_poppable skip_tracker (Batch input) (map (namespaced self) (poppable_names self)) [] =
       (Inl (RuntimeError (quoted n @ '' has not been stashed'')), tr')"
    by blast
  then have "forward self skip_tracker input =
      Some (Inl (RuntimeError (quoted n @ '' has not been stashed'')), tr')"
    by (simp add: forward_def poppable_def)
  with n show "\<exists>name skip_tracker1. name \<in> set (poppable_names self) \<and>
              skip_tracker (namespaced self name) = None \<and>
              forward self skip_tracker input =
                Some (Inl (RuntimeError (quoted name @ '' has not been stashed'')), skip_tracker1)"
    by blast
qed

text \<open>
  C6, a witness: the poppable names \<open>x\<close> and \<open>y\<close>, a tracker that holds both keys, and
  one that holds only the key of \<open>x\<close>.
\<close>

theorem C6_load_poppable_witness:
  "distinct (poppable_names (init 2 (\<lambda>x::nat. (Output x :: (nat, nat) module_result)) [] [''x'', ''y''])) \<and>
   (\<exists>poppable_tensors.
      load_poppable (Map.empty((None, ''x'') \<mapsto> Some (3::nat), (None, ''y'') \<mapsto> None)) (Batch (5::nat))
        (poppable (init 2 (\<lambda>x::nat. (Output x :: (nat, nat) module_result)) [] [''x'', ''y''])) [] =
        (Inr poppable_tensors, Map.empty) \<and>
      map fst poppable_tensors = [''x'', ''y'']) \<and>
   (\<exists>name skip_tracker1. name \<in> {''x'', ''y''} \<and>
      forward (init 2 (\<lambda>x::nat. (Output x :: (nat, nat) module_result)) [] [''x'', ''y''])
        (Map.empty((None, ''x'') \<mapsto> Some (3::nat))) 5 =
        Some (Inl (RuntimeError (quoted name @ '' has not been stashed'')), skip_tracker1))"
proof -
  let ?P = "init 2 (\<lambda>x::nat. (Output x :: (nat, nat) module_result)) [] [''x'', ''y'']"
  let ?T = "Map.empty((None, ''x'') \<mapsto> Some (3::nat), (None, ''y'') \<mapsto> None)"
  let ?U = "Map.empty((None, ''x'') \<mapsto> Some (3::nat))"
  have d: "distinct (poppable_names ?P)" by (simp add: init_def)
  have k: "poppable ?P = [(None, ''x''), (None, ''y'')]"
    by (simp add: poppable_def init_def namespaced_def)
  have n: "poppable_names ?P = [''x'', ''y'']" by (simp add: init_def)
  have all: "\<forall>key\<in>set (poppable ?P). ?T key \<noteq> None" by (simp add: k)
  have ex: "\<exists>key\<in>set (poppable ?P). ?U key = None" by (simp add: k)
  have e: "(\<lambda>key. if key \<in> set (poppable ?P) then None else ?T key) = Map.empty"
    by (rule ext) (simp add: k)
  from C6_load_poppable [OF d, of ?T "5::nat"] all
  obtain pt where pt: "load_poppable ?T (Batch (5::nat)) (poppable ?P) [] =
      (Inr pt, (\<lambda>key. if key \<in> set (poppable ?P) then None else ?T key))"
    "map fst pt = poppable_names ?P"
    by blast
  have 1: "\<exists>poppable_tensors.
      load_poppable ?T (Batch (5::nat)) (poppable ?P) [] = (Inr poppable_tensors, Map.empty) \<and>
      map fst poppable_tensors = [''x'', ''y'']"
    using pt unfolding e n by auto
  from C6_load_poppable [OF d, of ?U "5::nat"] ex
  have 2: "\<exists>name skip_tracker1. name \<in> {''x'', ''y''} \<and>
      forward ?P ?U 5 =
        Some (Inl (RuntimeError (quoted name @ '' has not been stashed'')), skip_tracker1)"
    unfolding n by auto
  from d 1 2 show ?thesis by blast
qed

lemma sublist_append_left: "sublist xs ys \<Longrightarrow> sublist xs (zs @ ys)"
  unfolding sublist_def by (metis append_assoc)

lemma sublist_join: "x \<in> set xs \<Longrightarrow> sublist x (join sep xs)"
proof (induction sep xs rule: join.induct)
  case (1 sep)
  then show ?case by simp
next
  case (2 sep y)
  then show ?case by simp
next
  case (3 sep y z zs)
  show ?case
  proof (cases "x = y")
    case True
    then show ?thesis by simp
  next
    case False
    then have "sublist x (join sep (z # zs))" using 3 by simp
    then have "sublist x ((y @ sep) @ join sep (z # zs))" by (rule sublist_append_left)
    then show ?thesis by simp
  qed
qed

lemma sublist_join_map: "n \<in> set ns \<Longrightarrow> sublist (f n) (join sep (map f ns) @ rest)"
proof -
  assume "n \<in> set ns"
  then have "sublist (f n) (join sep (map f ns))" by (intro sublist_join) simp
  then obtain ps ss where "join sep (map f ns) = ps @ f n @ ss" by (auto simp: sublist_def)
  then have "join sep (map f ns) @ rest = ps @ f n @ (ss @ rest)" by simp
  then show ?thesis unfolding sublist_def by blast
qed

text \<open>
  C3, as amended. After the computation has completed, the two checks run one after the
  other and the first that fails raises: if some declared stashable name was not stashed,
  the error is the one that lists every such name (each in quotes), whether or not preloaded
  values are left; only if every stashable name was stashed and some preloaded value was not
  popped, the error is the one that lists every leftover name.
\<close>

theorem C3_first_failing_check:
  assumes "load_poppable skip_tracker (Batch input) (poppable self) [] =
             (Inr poppable_tensors, skip_tracker1)"
    and "dispatch self input (handle_stash self) (handle_pop self) ([], poppable_tensors) =
           Some (Inr (output, stashed_tensors, poppable_tensors'))"
  shows "(not_stashed self stashed_tensors \<noteq> [] \<longrightarrow>
            forward self skip_tracker input =
              Some (Inl (RuntimeError (join '', '' (map quoted (not_stashed self stashed_tensors)) @
                                       '' must be stashed but have not'')), skip_tracker1) \<and>
            (\<forall>n\<in>set (not_stashed self stashed_tensors).
               sublist (quoted n) (join '', '' (map quoted (not_stashed self stashed_tensors)) @
                                   '' must be stashed but have not''))) \<and>
         (not_stashed self stashed_tensors = [] \<and> not_popped poppable_tensors' \<noteq> [] \<longrightarrow>
            forward self skip_tracker input =
              Some (Inl (RuntimeError (join '', '' (map quoted (not_popped poppable_tensors')) @
                                       '' must be popped but have not'')), skip_tracker1) \<and>
            (\<forall>n\<in>set (not_popped poppable_tensors').
               sublist (quoted n) (join '', '' (map quoted (not_popped poppable_tensors')) @
                                   '' must be popped but have not'')))"
  using forward_dispatch_done [OF assms] by (simp add: sublist_join_map)

text \<open>
  C3, a witness: a stage that stashes neither of its names \<open>a\<close>, \<open>b\<close> and does not pop
  \<open>z\<close>, and a stage with no stashable names that pops neither \<open>y\<close> nor \<open>z\<close>.
\<close>

theorem C3_first_failing_check_witness:
  "forward (init 3 (\<lambda>x::nat. (Output x :: (nat, nat) module_result)) [''a'', ''b''] [''z''])
      (Map.empty((None, ''z'') \<mapsto> Some 3)) 5 =
     Some (Inl (RuntimeError (join '', '' [quoted ''a'', quoted ''b''] @
                              '' must be stashed but have not'')), Map.empty) \<and>
   forward (init 4 (\<lambda>x::nat. (Output x :: (nat, nat) module_result)) [] [''y'', ''z''])
      (Map.empty((None, ''y'') \<mapsto> None, (None, ''z'') \<mapsto> Some 3)) 5 =
     Some (Inl (RuntimeError (join '', '' [quoted ''y'', quoted ''z''] @
                              '' must be popped but have not'')), Map.empty)"
proof -
  let ?S = "init 3 (\<lambda>x::nat. (Output x :: (nat, nat) module_result)) [''a'', ''b''] [''z'']"
  let ?T = "Map.empty((None, ''z'') \<mapsto> Some (3::nat))"
  let ?P = "init 4 (\<lambda>x::nat. (Output x :: (nat, nat) module_result)) [] [''y'', ''z'']"
  let ?U = "Map.empty((None, ''y'') \<mapsto> None, (None, ''z'') \<mapsto> Some (3::nat))"
  have loadS: "load_poppable ?T (Batch (5::nat)) (poppable ?S) [] = (Inr [(''z'', Some 3)], Map.empty)"
    by (simp add: poppable_def init_def namespaced_def load_def)
  have dispS: "dispatch ?S 5 (handle_stash ?S) (handle_pop ?S) ([], [(''z'', Some 3)]) =
      Some (Inr (5, [], [(''z'', Some 3)]))"
    by (simp add: dispatch_def init_def)
  have nsS: "not_stashed ?S [] = [''a'', ''b'']" by (simp add: not_stashed_def init_def)
  have loadP: "load_poppable ?U (Batch (5::nat)) (poppable ?P) [] =
      (Inr [(''y'', None), (''z'', Some 3)], Map.empty)"
    by (simp add: poppable_def init_def namespaced_def load_def)
  have dispP: "dispatch ?P 5 (handle_stash ?P) (handle_pop ?P) ([], [(''y'', None), (''z'', Some 3)]) =
      Some (Inr (5, [], [(''y'', None), (''z'', Some 3)]))"
    by (simp add: dispatch_def init_def)
  have nsP: "not_stashed ?P [] = []" by (simp add: not_stashed_def init_def)
  have npP: "not_popped [(''y'', None), (''z'', Some (3::nat))] = [''y'', ''z'']"
    by (simp add: not_popped_def)
  from C3_first_failing_check [OF loadS dispS] nsS
  have 1: "forward ?S ?T 5 =
     Some (Inl (RuntimeError (join '', '' [quoted ''a'', quoted ''b''] @
                              '' must be stashed but have not'')), Map.empty)"
    by simp
  from C3_first_failing_check [OF loadP dispP] nsP npP
  have 2: "forward ?P ?U 5 =
     Some (Inl (RuntimeError (join '', '' [quoted ''y'', quoted ''z''] @
                              '' must be popped but have not'')), Map.empty)"
    by simp
  from 1 2 show ?thesis by simp
qed

text \<open>
  C3, the counterexample: the stage declares \<open>a\<close> as stashable and \<open>z\<close> as poppable
  and its module returns at once. After the computation \<open>a\<close> is not stashed and the
  preloaded \<open>z\<close> is not consumed; the error raised names \<open>a\<close> and does not mention
  \<open>z\<close>.
\<close>

theorem C3_unconsumed_not_reported:
  "load_poppable (Map.empty((None, ''z'') \<mapsto> Some (3::nat))) (Batch (5::nat))
      (poppable (init 3 (\<lambda>x::nat. (Output x :: (nat, nat) module_result)) [''a''] [''z''])) [] =
     (Inr [(''z'', Some 3)], Map.empty) \<and>
   dispatch (init 3 (\<lambda>x::nat. (Output x :: (nat, nat) module_result)) [''a''] [''z'']) 5
      (handle_stash (init 3 (\<lambda>x::nat. (Output x :: (nat, nat) module_result)) [''a''] [''z'']))
      (handle_pop (init 3 (\<lambda>x::nat. (Output x :: (nat, nat) module_result)) [''a''] [''z'']))
      ([], [(''z'', Some 3)]) = Some (Inr (5, [], [(''z'', Some 3)])) \<and>
   not_stashed (init 3 (\<lambda>x::nat. (Output x :: (nat, nat) module_result)) [''a''] [''z'']) [] = [''a''] \<and>
   not_popped [(''z'', Some (3::nat))] = [''z''] \<and>
   forward (init 3 (\<lambda>x::nat. (Output x :: (nat, nat) module_result)) [''a''] [''z''])
      (Map.empty((None, ''z'') \<mapsto> Some 3)) 5 =
     Some (Inl (RuntimeError (quoted ''a'' @ '' must be stashed but have not'')), Map.empty) \<and>
   \<not> sublist (quoted ''z'') (quoted ''a'' @ '' must be stashed but have not'')"
  by (simp add: forward_def init_def poppable_def stashable_def dispatch_def
        handle_stash_def handle_pop_def not_stashed_def not_popped_def namespaced_def load_def
        quoted_def sublist_Cons_right prefix_Cons)

lemma load_poppable_tracker:
  "load_poppable tr b keys acc = (Inr pt, tr') \<Longrightarrow>
   tr' = (\<lambda>k. if k \<in> set keys then None else tr k)"
proof (induction keys arbitrary: tr acc)
  case Nil
  then show ?case by simp
next
  case (Cons key keys)
  obtain ns name where key: "key = (ns, name)" by (cases key)
  show ?case
  proof (cases "tr (ns, name)")
    case None
    then show ?thesis using Cons.prems key by (simp add: load_def)
  next
    case (Some v)
    then have "load_poppable (tr((ns, name) := None)) b keys (AList.update name v acc) = (Inr pt, tr')"
      using Cons.prems key by (simp add: load_def)
    then have "tr' = (\<lambda>k. if k \<in> set keys then None else (tr((ns, name) := None)) k)"
      by (rule Cons.IH)
    then show ?thesis using key by auto
  qed
qed

lemma save_stashed_ok:
  "\<forall>n\<in>set names. map_of st n \<noteq> None \<Longrightarrow>
   \<exists>tr2. save_stashed tr b st (map (namespaced self) names) = (Inr (), tr2) \<and>
     (\<forall>k. tr2 k = (if k \<in> set (map (namespaced self) names) then map_of st (snd k) else tr k))"
proof (induction names arbitrary: tr)
  case Nil
  then show ?case by simp
next
  case (Cons n names)
  obtain v where v: "map_of st n = Some v" using Cons.prems by auto
  let ?tr = "tr(namespaced self n \<mapsto> v)"
  have step: "save_stashed tr b st (map (namespaced self) (n # names)) =
              save_stashed ?tr b st (map (namespaced self) names)"
    using v by (simp add: namespaced_def save_def)
  have "\<forall>m\<in>set names. map_of st m \<noteq> None" using Cons.prems by simp
  from Cons.IH [OF this, of ?tr]
  obtain tr2 where tr2: "save_stashed ?tr b st (map (namespaced self) names) = (Inr (), tr2)"
    "\<forall>k. tr2 k = (if k \<in> set (map (namespaced self) names) then map_of st (snd k) else ?tr k)"
    by blast
  have "\<forall>k. tr2 k = (if k \<in> set (map (namespaced self) (n # names)) then map_of st (snd k) else tr k)"
    using tr2(2) v by (auto simp: namespaced_def)
  with step tr2(1) show ?case by simp
qed

lemma not_stashed_Nil:
  "not_stashed self st = [] \<Longrightarrow> \<forall>n\<in>set (stashable_names self). map_of st n \<noteq> None"
  by (auto simp: not_stashed_def filter_empty_conv map_of_eq_None_iff)

text \<open>
  C10: in a call of \<open>forward\<close> whose loads succeeded and whose computation completed, if
  some stashable name was not stashed or some preloaded value was not popped, the call fails
  and the tracker is the one the loads left (the tracker of the call without the poppable
  keys): nothing was saved. If both checks pass, the call returns the output and the tracker
  is the one the loads left with, for every stashable key, the tensor stashed under its name.
\<close>

theorem C10_no_save_on_failed_check:
  assumes "load_poppable skip_tracker (Batch input) (poppable self) [] =
             (Inr poppable_tensors, skip_tracker1)"
    and "dispatch self input (handle_stash self) (handle_pop self) ([], poppable_tensors) =
           Some (Inr (output, stashed_tensors, poppable_tensors'))"
  shows "(not_stashed self stashed_tensors \<noteq> [] \<or> not_popped poppable_tensors' \<noteq> [] \<longrightarrow>
            (\<exists>e. forward self skip_tracker input = Some (Inl e, skip_tracker1)) \<and>
            skip_tracker1 = (\<lambda>key. if key \<in> set (poppable self) then None else skip_tracker key)) \<and>
         (not_stashed self stashed_tensors = [] \<and> not_popped poppable_tensors' = [] \<longrightarrow>
            (\<exists>skip_tracker2. forward self skip_tracker input = Some (Inr output, skip_tracker2) \<and>
               (\<forall>key. skip_tracker2 key =
                  (if key \<in> set (stashable self) then map_of stashed_tensors (snd key)
                   else skip_tracker1 key))))"
proof (intro conjI impI)
  assume "not_stashed self stashed_tensors \<noteq> [] \<or> not_popped poppable_tensors' \<noteq> []"
  then show "\<exists>e. forward self skip_tracker input = Some (Inl e, skip_tracker1)"
    using forward_dispatch_done [OF assms] by auto
next
  show "skip_tracker1 = (\<lambda>key. if key \<in> set (poppable self) then None else skip_tracker key)"
    using assms(1) by (rule load_poppable_tracker)
next
  assume ok: "not_stashed self stashed_tensors = [] \<and> not_popped poppable_tensors' = []"
  then have "\<forall>n\<in>set (stashable_names self). map_of stashed_tensors n \<noteq> None"
    using not_stashed_Nil [of self stashed_tensors] by blast
  from save_stashed_ok [OF this, of skip_tracker1 "Batch output" self]
  obtain tr2 where tr2:
    "save_stashed skip_tracker1 (Batch output) stashed_tensors (stashable self) = (Inr (), tr2)"
    "\<forall>k. tr2 k = (if k \<in> set (stashable self) then map_of stashed_tensors (snd k)
                 else skip_tracker1 k)"
    by (auto simp: stashable_def)
  have "forward self skip_tracker input = Some (Inr output, tr2)"
    using forward_dispatch_done [OF assms] ok tr2(1) by simp
  with tr2(2) show "\<exists>skip_tracker2. forward self skip_tracker input = Some (Inr output, skip_tracker2) \<and>
               (\<forall>key. skip_tracker2 key =
                  (if key \<in> set (stashable self) then map_of stashed_tensors (snd key)
                   else skip_tracker1 key))"
    by blast
qed

text \<open>
  C10, a witness: a stage that stashes \<open>a\<close> and not \<open>b\<close>, and a stage that stashes its
  only name \<open>a\<close>.
\<close>

theorem C10_no_save_on_failed_check_witness:
  "(\<exists>e. forward (init 3 (\<lambda>x::nat. Generator (YieldStash ''a'' (Some x) (Return x))) [''a'', ''b''] [])
           (Map.empty :: nat SkipTracker) 5 = Some (Inl e, Map.empty)) \<and>
   (\<exists>skip_tracker2.
      forward (init 1 (\<lambda>x::nat. Generator (YieldStash ''a'' (Some x) (Return (x + 1)))) [''a''] [])
        (Map.empty :: nat SkipTracker) 5 = Some (Inr 6, skip_tracker2) \<and>
      skip_tracker2 (None, ''a'') = Some (Some 5))"
proof -
  let ?S = "init 3 (\<lambda>x::nat. Generator (YieldStash ''a'' (Some x) (Return x) :: (nat, nat) generator))
              [''a'', ''b''] []"
  let ?A = "init 1 (\<lambda>x::nat. Generator (YieldStash ''a'' (Some x) (Return (x + 1))
              :: (nat, nat) generator)) [''a''] []"
  let ?E = "Map.empty :: nat SkipTracker"
  have loadS: "load_poppable ?E (Batch (5::nat)) (poppable ?S) [] = (Inr [], ?E)"
    by (simp add: poppable_def init_def)
  have dispS: "dispatch ?S 5 (handle_stash ?S) (handle_pop ?S) ([], []) =
      Some (Inr (5, [(''a'', Some 5)], []))"
    by (simp add: dispatch_def init_def dispatch_loop_YieldStash dispatch_loop_Return
          handle_stash_def)
  have nsS: "not_stashed ?S [(''a'', Some 5)] \<noteq> []" by (simp add: not_stashed_def init_def)
  have loadA: "load_poppable ?E (Batch (5::nat)) (poppable ?A) [] = (Inr [], ?E)"
    by (simp add: poppable_def init_def)
  have dispA: "dispatch ?A 5 (handle_stash ?A) (handle_pop ?A) ([], []) =
      Some (Inr (6, [(''a'', Some 5)], []))"
    by (simp add: dispatch_def init_def dispatch_loop_YieldStash dispatch_loop_Return
          handle_stash_def)
  have okA: "not_stashed ?A [(''a'', Some 5)] = [] \<and> not_popped ([] :: nat tensors) = []"
    by (simp add: not_stashed_def not_popped_def init_def)
  have keyA: "(None, ''a'') \<in> set (stashable ?A)"
    by (simp add: stashable_def init_def namespaced_def)
  from C10_no_save_on_failed_check [OF loadS dispS] nsS
  have 1: "\<exists>e. forward ?S ?E 5 = Some (Inl e, ?E)" by blast
  from C10_no_save_on_failed_check [OF loadA dispA] okA
  obtain tr2 where tr2: "forward ?A ?E 5 = Some (Inr 6, tr2)"
    "\<forall>key. tr2 key = (if key \<in> set (stashable ?A) then map_of [(''a'', Some 5)] (snd key) else ?E key)"
    by blast
  from tr2(2) keyA have "tr2 (None, ''a'') = Some (Some 5)" by simp
  with 1 tr2(1) show ?thesis by blast
qed

section \<open>The scan of verify_skippables\<close>

lemma fold_append_msgs:
  "fold (\<lambda>name st. st\<lparr>msgs := msgs st @ [f name]\<rparr>) names st = st\<lparr>msgs := msgs st @ map f names\<rparr>"
  by (induction names arbitrary: st) simp_all

lemma verify_both_eq:
  "verify_both layer_name layer st =
     st\<lparr>msgs := msgs st @ map (msg_both layer_name)
              (filter (\<lambda>name. name \<in> set (poppable_names layer)) (stashable_names layer))\<rparr>"
  by (simp add: verify_both_def fold_append_msgs)

lemma verify_stash_fields:
  "popped (verify_stash ln l key st) = popped st"
  "set (stashed st) \<subseteq> set (stashed (verify_stash ln l key st))"
  "set (stashed (verify_stash ln l key st)) \<subseteq> insert key (set (stashed st))"
  "set (msgs st) \<subseteq> set (msgs (verify_stash ln l key st))"
  by (cases key; auto simp: verify_stash_def)+

lemma verify_pop_fields:
  "stashed (verify_pop ln l key st) = stashed st"
  "set (popped st) \<subseteq> set (popped (verify_pop ln l key st))"
  "set (popped (verify_pop ln l key st)) \<subseteq> insert key (set (popped st))"
  "set (popped (verify_pop ln l key st)) \<subseteq> set (popped st) \<union> set (stashed st)"
  "set (msgs st) \<subseteq> set (msgs (verify_pop ln l key st))"
  by (cases key; auto simp: verify_pop_def)+

lemma fold_verify_stash_fields:
  "popped (fold (verify_stash ln l) keys st) = popped st"
  "set (stashed st) \<subseteq> set (stashed (fold (verify_stash ln l) keys st))"
  "set (stashed (fold (verify_stash ln l) keys st)) \<subseteq> set keys \<union> set (stashed st)"
  "set (msgs st) \<subseteq> set (msgs (fold (verify_stash ln l) keys st))"
proof (induction keys arbitrary: st)
  case Nil
  { case 1 show ?case by simp }
  { case 2 show ?case by simp }
  { case 3 show ?case by simp }
  { case 4 show ?case by simp }
next
  case (Cons key keys)
  { case 1 show ?case using Cons.IH(1) by (simp add: verify_stash_fields) }
  { case 2 show ?case
      using Cons.IH(2) [of "verify_stash ln l key st"] verify_stash_fields(2) [of st ln l key]
      by auto }
  { case 3 show ?case
      using Cons.IH(3) [of "verify_stash ln l key st"] verify_stash_fields(3) [of ln l key st]
      by auto }
  { case 4 show ?case
      using Cons.IH(4) [of "verify_stash ln l key st"] verify_stash_fields(4) [of st ln l key]
      by auto }
qed

lemma fold_verify_pop_fields:
  "stashed (fold (verify_pop ln l) keys st) = stashed st"
  "set (popped st) \<subseteq> set (popped (fold (verify_pop ln l) keys st))"
  "set (popped (fold (verify_pop ln l) keys st)) \<subseteq> set keys \<union> set (popped st)"
  "set (popped (fold (verify_pop ln l) keys st)) \<subseteq> set (popped st) \<union> set (stashed st)"
  "set (msgs st) \<subseteq> set (msgs (fold (verify_pop ln l) keys st))"
proof (induction keys arbitrary: st)
  case Nil
  { case 1 show ?case by simp }
  { case 2 show ?case by simp }
  { case 3 show ?case by simp }
  { case 4 show ?case by simp }
  { case 5 show ?case by simp }
next
  case (Cons key keys)
  { case 1 show ?case using Cons.IH(1) by (simp add: verify_pop_fields) }
  { case 2 show ?case
      using Cons.IH(2) [of "verify_pop ln l key st"] verify_pop_fields(2) [of st ln l key]
      by auto }
  { case 3 show ?case
      using Cons.IH(3) [of "verify_pop ln l key st"] verify_pop_fields(3) [of ln l key st]
      by auto }
  { case 4 show ?case
      using Cons.IH(4) [of "verify_pop ln l key st"] verify_pop_fields(4) [of ln l key st]
        verify_pop_fields(1) [of ln l key st]
      by auto }
  { case 5 show ?case
      using Cons.IH(5) [of "verify_pop ln l key st"] verify_pop_fields(5) [of st ln l key]
      by auto }
qed

lemma verify_layer_Other [simp]: "verify_layer (ln, OtherLayer) st = st"
  by (simp add: verify_layer_def)

lemma verify_layer_Skippable:
  "verify_layer (ln, SkippableLayer l) st =
     fold (verify_pop ln l) (poppable l) (fold (verify_stash ln l) (stashable l) (verify_both ln l st))"
  by (simp add: verify_layer_def)

lemma verify_both_fields [simp]:
  "stashed (verify_both ln l st) = stashed st"
  "popped (verify_both ln l st) = popped st"
  by (auto simp: verify_both_eq)

lemma verify_both_msgs: "set (msgs st) \<subseteq> set (msgs (verify_both ln l st))"
  by (auto simp: verify_both_eq)

lemma verify_layer_mono:
  "set (stashed st) \<subseteq> set (stashed (verify_layer c st))"
  "set (popped st) \<subseteq> set (popped (verify_layer c st))"
  "set (msgs st) \<subseteq> set (msgs (verify_layer c st))"
proof -
  obtain ln y where c: "c = (ln, y)" by (cases c)
  show "set (stashed st) \<subseteq> set (stashed (verify_layer c st))"
  proof (cases y)
    case (SkippableLayer l)
    then show ?thesis
      using fold_verify_stash_fields(2) [of "verify_both ln l st" ln l "stashable l"]
      by (simp add: c verify_layer_Skippable fold_verify_pop_fields(1))
  qed (simp add: c)
  show "set (popped st) \<subseteq> set (popped (verify_layer c st))"
  proof (cases y)
    case (SkippableLayer l)
    then show ?thesis
      using fold_verify_pop_fields(2)
              [of "fold (verify_stash ln l) (stashable l) (verify_both ln l st)" ln l "poppable l"]
      by (simp add: c verify_layer_Skippable fold_verify_stash_fields(1))
  qed (simp add: c)
  show "set (msgs st) \<subseteq> set (msgs (verify_layer c st))"
  proof (cases y)
    case (SkippableLayer l)
    then show ?thesis
      using fold_verify_pop_fields(5)
              [of "fold (verify_stash ln l) (stashable l) (verify_both ln l st)" ln l "poppable l"]
            fold_verify_stash_fields(4) [of "verify_both ln l st" ln l "stashable l"]
            verify_both_msgs [of st ln l]
      by (auto simp: c verify_layer_Skippable)
  qed (simp add: c)
qed

lemma verify_layer_stashed_origin:
  "set (stashed (verify_layer (ln, SkippableLayer l) st)) \<subseteq> set (stashable l) \<union> set (stashed st)"
  using fold_verify_stash_fields(3) [of ln l "stashable l" "verify_both ln l st"]
  by (simp add: verify_layer_Skippable fold_verify_pop_fields(1))

lemma verify_layer_popped_origin:
  "set (popped (verify_layer (ln, SkippableLayer l) st)) \<subseteq> set (poppable l) \<union> set (popped st)"
  using fold_verify_pop_fields(3)
          [of ln l "poppable l" "fold (verify_stash ln l) (stashable l) (verify_both ln l st)"]
  by (simp add: verify_layer_Skippable fold_verify_stash_fields(1))

lemma verify_layer_popped_stashed:
  assumes "set (popped st) \<subseteq> set (stashed st)"
  shows "set (popped (verify_layer c st)) \<subseteq> set (stashed (verify_layer c st))"
proof -
  obtain ln y where c: "c = (ln, y)" by (cases c)
  show ?thesis
  proof (cases y)
    case (SkippableLayer l)
    let ?s = "fold (verify_stash ln l) (stashable l) (verify_both ln l st)"
    have "set (popped ?s) \<subseteq> set (stashed ?s)"
      using assms fold_verify_stash_fields(2) [of "verify_both ln l st" ln l "stashable l"]
      by (auto simp: fold_verify_stash_fields(1))
    then show ?thesis
      using fold_verify_pop_fields(4) [of ln l "poppable l" ?s]
      by (auto simp: c SkippableLayer verify_layer_Skippable fold_verify_pop_fields(1))
  qed (use assms in \<open>simp add: c\<close>)
qed

lemma fold_verify_layer_mono:
  "set (stashed st) \<subseteq> set (stashed (fold verify_layer cs st))"
  "set (popped st) \<subseteq> set (popped (fold verify_layer cs st))"
  "set (msgs st) \<subseteq> set (msgs (fold verify_layer cs st))"
proof (induction cs arbitrary: st)
  case Nil
  { case 1 show ?case by simp }
  { case 2 show ?case by simp }
  { case 3 show ?case by simp }
next
  case (Cons c cs)
  { case 1 show ?case
      using Cons.IH(1) [of "verify_layer c st"] verify_layer_mono(1) [of st c] by auto }
  { case 2 show ?case
      using Cons.IH(2) [of "verify_layer c st"] verify_layer_mono(2) [of st c] by auto }
  { case 3 show ?case
      using Cons.IH(3) [of "verify_layer c st"] verify_layer_mono(3) [of st c] by auto }
qed

lemma fold_verify_layer_popped_stashed:
  "set (popped st) \<subseteq> set (stashed st) \<Longrightarrow>
   set (popped (fold verify_layer cs st)) \<subseteq> set (stashed (fold verify_layer cs st))"
  by (induction cs arbitrary: st) (simp_all add: verify_layer_popped_stashed)

lemma fold_verify_layer_stashed_origin:
  "key \<in> set (stashed (fold verify_layer cs st)) \<Longrightarrow>
   key \<in> set (stashed st) \<or> (\<exists>ln l. (ln, SkippableLayer l) \<in> set cs \<and> key \<in> set (stashable l))"
proof (induction cs arbitrary: st)
  case Nil
  then show ?case by simp
next
  case (Cons c cs)
  obtain ln y where c: "c = (ln, y)" by (cases c)
  from Cons.IH [of "verify_layer c st"] Cons.prems
  have "key \<in> set (stashed (verify_layer c st)) \<or>
        (\<exists>ln l. (ln, SkippableLayer l) \<in> set cs \<and> key \<in> set (stashable l))"
    by simp
  then show ?case
  proof
    assume k: "key \<in> set (stashed (verify_layer c st))"
    show ?thesis
    proof (cases y)
      case (SkippableLayer l)
      then show ?thesis using k c verify_layer_stashed_origin [of ln l st] by auto
    next
      case OtherLayer
      then show ?thesis using k c by simp
    qed
  next
    assume "\<exists>ln l. (ln, SkippableLayer l) \<in> set cs \<and> key \<in> set (stashable l)"
    then show ?thesis by auto
  qed
qed

lemma fold_verify_layer_popped_origin:
  "key \<in> set (popped (fold verify_layer cs st)) \<Longrightarrow>
   key \<in> set (popped st) \<or> (\<exists>ln l. (ln, SkippableLayer l) \<in> set cs \<and> key \<in> set (poppable l))"
proof (induction cs arbitrary: st)
  case Nil
  then show ?case by simp
next
  case (Cons c cs)
  obtain ln y where c: "c = (ln, y)" by (cases c)
  from Cons.IH [of "verify_layer c st"] Cons.prems
  have "key \<in> set (popped (verify_layer c st)) \<or>
        (\<exists>ln l. (ln, SkippableLayer l) \<in> set cs \<and> key \<in> set (poppable l))"
    by simp
  then show ?case
  proof
    assume k: "key \<in> set (popped (verify_layer c st))"
    show ?thesis
    proof (cases y)
      case (SkippableLayer l)
      then show ?thesis using k c verify_layer_popped_origin [of ln l st] by auto
    next
      case OtherLayer
      then show ?thesis using k c by simp
    qed
  next
    assume "\<exists>ln l. (ln, SkippableLayer l) \<in> set cs \<and> key \<in> set (poppable l)"
    then show ?thesis by auto
  qed
qed

lemma fold_verify_pop_not_stashed:
  "key \<in> set keys \<Longrightarrow> snd key \<notin> set (stashable_names l) \<Longrightarrow>
   key \<notin> set (stashed st) \<Longrightarrow> key \<notin> set (popped st) \<Longrightarrow>
   msg_not_stashed ln (snd key) \<in> set (msgs (fold (verify_pop ln l) keys st))"
proof (induction keys arbitrary: st)
  case Nil
  then show ?case by simp
next
  case (Cons k keys)
  show ?case
  proof (cases "k = key")
    case True
    have "msg_not_stashed ln (snd key) \<in> set (msgs (verify_pop ln l key st))"
      using Cons.prems(2,3,4) by (simp add: verify_pop_def case_prod_beta)
    then show ?thesis
      using fold_verify_pop_fields(5) [of "verify_pop ln l key st" ln l keys] True by auto
  next
    case False
    have "key \<notin> set (popped (verify_pop ln l k st))"
      using verify_pop_fields(3) [of ln l k st] Cons.prems False by auto
    moreover have "key \<notin> set (stashed (verify_pop ln l k st))"
      using Cons.prems by (simp add: verify_pop_fields(1))
    moreover have "key \<in> set keys" using Cons.prems False by simp
    ultimately show ?thesis using Cons.IH Cons.prems(2) by simp
  qed
qed

lemma fold_verify_stash_marks:
  "key \<in> set keys \<Longrightarrow> snd key \<notin> set (poppable_names l) \<Longrightarrow>
   key \<in> set (stashed (fold (verify_stash ln l) keys st))"
proof (induction keys arbitrary: st)
  case Nil
  then show ?case by simp
next
  case (Cons k keys)
  show ?case
  proof (cases "k = key")
    case True
    have "key \<in> set (stashed (verify_stash ln l key st))"
      using Cons.prems(2) by (simp add: verify_stash_def case_prod_beta)
    then show ?thesis
      using fold_verify_stash_fields(2) [of "verify_stash ln l key st" ln l keys] True by auto
  next
    case False
    then show ?thesis using Cons by simp
  qed
qed

lemma fold_verify_stash_redeclared:
  "key \<in> set keys \<Longrightarrow> snd key \<notin> set (poppable_names l) \<Longrightarrow> key \<in> set (stashed st) \<Longrightarrow>
   msg_redeclared_stashable ln (snd key) \<in> set (msgs (fold (verify_stash ln l) keys st))"
proof (induction keys arbitrary: st)
  case Nil
  then show ?case by simp
next
  case (Cons k keys)
  show ?case
  proof (cases "k = key")
    case True
    have "msg_redeclared_stashable ln (snd key) \<in> set (msgs (verify_stash ln l key st))"
      using Cons.prems(2,3) by (simp add: verify_stash_def case_prod_beta)
    then show ?thesis
      using fold_verify_stash_fields(4) [of "verify_stash ln l key st" ln l keys] True by auto
  next
    case False
    have "key \<in> set (stashed (verify_stash ln l k st))"
      using verify_stash_fields(2) [of st ln l k] Cons.prems by auto
    then show ?thesis using Cons False by simp
  qed
qed

lemma fold_verify_layer_split:
  assumes "i < length cs"
  shows "fold verify_layer cs st =
         fold verify_layer (drop (Suc i) cs) (verify_layer (cs ! i) (fold verify_layer (take i cs) st))"
proof -
  have "cs = take i cs @ cs ! i # drop (Suc i) cs" using assms by (rule id_take_nth_drop)
  then have "fold verify_layer cs st = fold verify_layer (take i cs @ cs ! i # drop (Suc i) cs) st"
    by (rule arg_cong)
  then show ?thesis by simp
qed

lemma set_take_nth: "x \<in> set (take i cs) \<Longrightarrow> \<exists>j<i. j < length cs \<and> cs ! j = x"
  by (auto simp: in_set_conv_nth)

lemma verify_msgs_scan: "set (msgs (verify_scan children)) \<subseteq> set (verify_msgs children)"
  by (auto simp: verify_msgs_def Let_def)

lemma verify_msgs_not_poppable:
  "key \<in> set (stashed (verify_scan children)) \<Longrightarrow> key \<notin> set (popped (verify_scan children)) \<Longrightarrow>
   msg_not_poppable (snd key) \<in> set (verify_msgs children)"
  by (cases key) (force simp: verify_msgs_def Let_def)

lemma verify_unmatched_pop:
  assumes i: "i < length children" "children ! i = (ln, SkippableLayer l)"
    and name: "name \<in> set (poppable_names l)" "name \<notin> set (stashable_names l)"
    and earlier: "\<forall>j<i. \<forall>lnj lj. children ! j = (lnj, SkippableLayer lj) \<longrightarrow>
                    namespaced l name \<notin> set (stashable lj)"
  shows "msg_not_stashed ln name \<in> set (verify_msgs children)"
proof -
  let ?init = "\<lparr>stashed = [], popped = [], msgs = []\<rparr>"
  let ?key = "namespaced l name"
  let ?st1 = "fold verify_layer (take i children) ?init"
  let ?st2 = "fold (verify_stash ln l) (stashable l) (verify_both ln l ?st1)"
  have k1: "?key \<notin> set (stashed ?st1)"
  proof
    assume "?key \<in> set (stashed ?st1)"
    from fold_verify_layer_stashed_origin [OF this]
    obtain lnj lj where "(lnj, SkippableLayer lj) \<in> set (take i children)" "?key \<in> set (stashable lj)"
      by auto
    then show False using earlier set_take_nth [of "(lnj, SkippableLayer lj)" i children] by blast
  qed
  have "set (popped ?st1) \<subseteq> set (stashed ?st1)"
    by (rule fold_verify_layer_popped_stashed) simp
  then have p1: "?key \<notin> set (popped ?st1)" using k1 by auto
  have "?key \<notin> set (stashable l)" using name(2) by (auto simp: stashable_def namespaced_inj)
  then have k2: "?key \<notin> set (stashed ?st2)"
    using fold_verify_stash_fields(3) [of ln l "stashable l" "verify_both ln l ?st1"] k1 by auto
  have p2: "?key \<notin> set (popped ?st2)" using p1 by (simp add: fold_verify_stash_fields(1))
  have "?key \<in> set (poppable l)" using name(1) by (simp add: poppable_def)
  from fold_verify_pop_not_stashed [OF this _ k2 p2, where ln = ln] name(2)
  have "msg_not_stashed ln name \<in> set (msgs (verify_layer (children ! i) ?st1))"
    by (simp add: i(2) verify_layer_Skippable)
  then have "msg_not_stashed ln name \<in> set (msgs (verify_scan children))"
    unfolding verify_scan_def fold_verify_layer_split [OF i(1)]
    using fold_verify_layer_mono(3) by blast
  then show ?thesis using verify_msgs_scan by blast
qed

lemma fold_verify_layer_marks:
  assumes i: "i < length cs" "cs ! i = (ln, SkippableLayer l)"
    and key: "key \<in> set (stashable l)" "snd key \<notin> set (poppable_names l)"
  shows "key \<in> set (stashed (fold verify_layer cs st))"
proof -
  let ?st1 = "fold verify_layer (take i cs) st"
  have "key \<in> set (stashed (fold (verify_stash ln l) (stashable l) (verify_both ln l ?st1)))"
    using key by (rule fold_verify_stash_marks)
  then have "key \<in> set (stashed (verify_layer (cs ! i) ?st1))"
    by (simp add: i(2) verify_layer_Skippable fold_verify_pop_fields(1))
  then show ?thesis
    unfolding fold_verify_layer_split [OF i(1)] using fold_verify_layer_mono(1) by blast
qed

lemma verify_unpopped_stash:
  assumes i: "i < length children" "children ! i = (ln, SkippableLayer l)"
    and name: "name \<in> set (stashable_names l)" "name \<notin> set (poppable_names l)"
    and nopop: "\<forall>j<length children. \<forall>lnj lj. children ! j = (lnj, SkippableLayer lj) \<longrightarrow>
                    namespaced l name \<notin> set (poppable lj)"
  shows "msg_not_poppable name \<in> set (verify_msgs children)"
proof -
  let ?key = "namespaced l name"
  have "?key \<in> set (stashable l)" using name(1) by (simp add: stashable_def)
  then have s: "?key \<in> set (stashed (verify_scan children))"
    unfolding verify_scan_def using i name(2) by (intro fold_verify_layer_marks) auto
  have p: "?key \<notin> set (popped (verify_scan children))"
  proof
    assume "?key \<in> set (popped (verify_scan children))"
    from fold_verify_layer_popped_origin [OF this [unfolded verify_scan_def]]
    obtain lnj lj where "(lnj, SkippableLayer lj) \<in> set children" "?key \<in> set (poppable lj)"
      by auto
    then show False using nopop by (auto simp: in_set_conv_nth)
  qed
  from verify_msgs_not_poppable [OF s p] show ?thesis by simp
qed

lemma verify_duplicate_stash:
  assumes ij: "i < j" "j < length children"
    and li: "children ! i = (lni, SkippableLayer li)"
    and lj: "children ! j = (lnj, SkippableLayer lj)"
    and key: "key \<in> set (stashable li)" "key \<in> set (stashable lj)"
    and nopop: "snd key \<notin> set (poppable_names li)" "snd key \<notin> set (poppable_names lj)"
  shows "msg_redeclared_stashable lnj (snd key) \<in> set (verify_msgs children)"
proof -
  let ?init = "\<lparr>stashed = [], popped = [], msgs = []\<rparr>"
  let ?st1 = "fold verify_layer (take j children) ?init"
  have "key \<in> set (stashed ?st1)"
    using ij li key(1) nopop(1) by (intro fold_verify_layer_marks [of i _ lni li]) auto
  then have "key \<in> set (stashed (verify_both lnj lj ?st1))" by simp
  from fold_verify_stash_redeclared [OF key(2) nopop(2) this, where ln = lnj]
  have "msg_redeclared_stashable lnj (snd key) \<in> set (msgs (verify_layer (children ! j) ?st1))"
    using fold_verify_pop_fields(5)
            [of "fold (verify_stash lnj lj) (stashable lj) (verify_both lnj lj ?st1)" lnj lj
                "poppable lj"]
    by (auto simp: lj verify_layer_Skippable)
  then have "msg_redeclared_stashable lnj (snd key) \<in> set (msgs (verify_scan children))"
    unfolding verify_scan_def fold_verify_layer_split [OF ij(2)]
    using fold_verify_layer_mono(3) by blast
  then show ?thesis using verify_msgs_scan by blast
qed

lemma verify_layer_no_names:
  "stashable_names s = [] \<Longrightarrow> poppable_names s = [] \<Longrightarrow>
   verify_layer (ln, SkippableLayer s) st = st"
  by (simp add: verify_layer_Skippable verify_both_eq stashable_def poppable_def)

lemma fold_verify_layer_no_names:
  "\<forall>c\<in>set cs. \<forall>s. snd c = SkippableLayer s \<longrightarrow> stashable_names s = [] \<and> poppable_names s = [] \<Longrightarrow>
   fold verify_layer cs st = st"
proof (induction cs arbitrary: st)
  case Nil
  then show ?case by simp
next
  case (Cons c cs)
  obtain ln y where c: "c = (ln, y)" by (cases c)
  have "verify_layer c st = st"
  proof (cases y)
    case (SkippableLayer s)
    then show ?thesis using Cons.prems c by (simp add: verify_layer_no_names)
  next
    case OtherLayer
    then show ?thesis using c by simp
  qed
  then show ?case using Cons by simp
qed

text \<open>
  C4: a sequence in which one stage declares only \<open>x\<close> as stashable, a later stage declares
  only \<open>x\<close> as poppable under the same namespace, and every other child is no skippable or
  declares no name, verifies: \<open>verify_skippables\<close> raises nothing.
\<close>

theorem C4_stash_then_pop_verifies:
  assumes children: "children = pre @ [(name_a, SkippableLayer a)] @ mid @
                                [(name_b, SkippableLayer b)] @ post"
    and a: "stashable_names a = [x]" "poppable_names a = []"
    and b: "stashable_names b = []" "poppable_names b = [x]"
    and ns: "namespaces a x = namespaces b x"
    and others: "\<forall>c\<in>set (pre @ mid @ post). \<forall>s. snd c = SkippableLayer s \<longrightarrow>
                   stashable_names s = [] \<and> poppable_names s = []"
  shows "verify_skippables children = Inr ()"
proof -
  let ?init = "\<lparr>stashed = [], popped = [], msgs = []\<rparr>"
  let ?key = "(namespaces b x, x)"
  have pre: "fold verify_layer pre st = st" for st
    using others by (intro fold_verify_layer_no_names) auto
  have mid: "fold verify_layer mid st = st" for st
    using others by (intro fold_verify_layer_no_names) auto
  have post: "fold verify_layer post st = st" for st
    using others by (intro fold_verify_layer_no_names) auto
  have A: "verify_layer (name_a, SkippableLayer a) ?init = \<lparr>stashed = [?key], popped = [], msgs = []\<rparr>"
    using a ns
    by (simp add: verify_layer_Skippable verify_both_eq stashable_def poppable_def namespaced_def
          verify_stash_def)
  have B: "verify_layer (name_b, SkippableLayer b) \<lparr>stashed = [?key], popped = [], msgs = []\<rparr> =
           \<lparr>stashed = [?key], popped = [?key], msgs = []\<rparr>"
    using b
    by (simp add: verify_layer_Skippable verify_both_eq stashable_def poppable_def namespaced_def
          verify_pop_def)
  have "verify_scan children = \<lparr>stashed = [?key], popped = [?key], msgs = []\<rparr>"
    by (simp add: verify_scan_def children pre mid post A B)
  then have "verify_msgs children = []" by (simp add: verify_msgs_def)
  then show ?thesis by (simp add: verify_skippables_def)
qed

text \<open>C4, a witness: a stage that stashes \<open>x\<close>, an ordinary module, a stage that pops \<open>x\<close>.\<close>

theorem C4_stash_then_pop_verifies_witness:
  "verify_skippables
     [(''0'', SkippableLayer (init 1 (\<lambda>x::nat. Generator (YieldStash ''x'' (Some x) (Return x)))
                 [''x''] [])),
      (''1'', OtherLayer),
      (''2'', SkippableLayer (init 2 (\<lambda>x::nat. Generator (YieldPop ''x'' (\<lambda>t::nat option. Return x)))
                 [] [''x'']))] = Inr ()"
proof -
  let ?a = "init 1 (\<lambda>x::nat. Generator (YieldStash ''x'' (Some x) (Return x) :: (nat, nat) generator))
              [''x''] []"
  let ?b = "init 2 (\<lambda>x::nat. Generator (YieldPop ''x'' (\<lambda>t::nat option. Return x)
              :: (nat, nat) generator)) [] [''x'']"
  have c: "[(''0'', SkippableLayer ?a), (''1'', OtherLayer), (''2'', SkippableLayer ?b)] =
           [] @ [(''0'', SkippableLayer ?a)] @ [(''1'', OtherLayer)] @ [(''2'', SkippableLayer ?b)] @ []"
    by simp
  have o: "\<forall>c\<in>set ([] @ [(''1'', (OtherLayer :: (nat, nat) layer))] @ []).
             \<forall>s. snd c = SkippableLayer s \<longrightarrow> stashable_names s = [] \<and> poppable_names s = []"
    by simp
  show ?thesis
    by (rule C4_stash_then_pop_verifies [OF c _ _ _ _ _ o, where x = "''x''"])
       (simp_all add: init_def)
qed

lemma verify_stash_msgs_prefix:
  "verify_stash ln l key (st\<lparr>msgs := p @ msgs st\<rparr>) =
     (verify_stash ln l key st)\<lparr>msgs := p @ msgs (verify_stash ln l key st)\<rparr>"
  by (cases key) (simp add: verify_stash_def)

lemma verify_pop_msgs_prefix:
  "verify_pop ln l key (st\<lparr>msgs := p @ msgs st\<rparr>) =
     (verify_pop ln l key st)\<lparr>msgs := p @ msgs (verify_pop ln l key st)\<rparr>"
  by (cases key) (simp add: verify_pop_def)

lemma fold_verify_stash_msgs_prefix:
  "fold (verify_stash ln l) keys (st\<lparr>msgs := p @ msgs st\<rparr>) =
     (fold (verify_stash ln l) keys st)\<lparr>msgs := p @ msgs (fold (verify_stash ln l) keys st)\<rparr>"
  by (induction keys arbitrary: st) (simp_all add: verify_stash_msgs_prefix)

lemma fold_verify_pop_msgs_prefix:
  "fold (verify_pop ln l) keys (st\<lparr>msgs := p @ msgs st\<rparr>) =
     (fold (verify_pop ln l) keys st)\<lparr>msgs := p @ msgs (fold (verify_pop ln l) keys st)\<rparr>"
  by (induction keys arbitrary: st) (simp_all add: verify_pop_msgs_prefix)

lemma fold_filter_skip:
  assumes "\<And>n s. n \<noteq> x \<Longrightarrow> f' (k n) s = f (k n) s" and "\<And>s. f (k x) s = s"
  shows "fold f' (map k (filter (\<lambda>n. n \<noteq> x) names)) s = fold f (map k names) s"
  using assms by (induction names arbitrary: s) simp_all

lemma verify_layer_msgs_rest:
  "verify_layer (ln, SkippableLayer l) st =
     (let r = fold (verify_pop ln l) (poppable l)
                (fold (verify_stash ln l) (stashable l) (st\<lparr>msgs := []\<rparr>))
      in r\<lparr>msgs := (msgs st @ map (msg_both ln)
               (filter (\<lambda>name. name \<in> set (poppable_names l)) (stashable_names l))) @ msgs r\<rparr>)"
proof -
  let ?p = "msgs st @ map (msg_both ln)
              (filter (\<lambda>name. name \<in> set (poppable_names l)) (stashable_names l))"
  let ?s0 = "st\<lparr>msgs := []\<rparr>"
  have "verify_both ln l st = ?s0\<lparr>msgs := ?p @ msgs ?s0\<rparr>" by (simp add: verify_both_eq)
  then show ?thesis
    by (simp only: verify_layer_Skippable fold_verify_stash_msgs_prefix
          fold_verify_pop_msgs_prefix Let_def)
qed

lemma sublist_verify_error: "x \<in> set ms \<Longrightarrow> sublist x (verify_error ms)"
proof -
  assume "x \<in> set ms"
  then have "sublist (''* '' @ x) (join [CHR 0x0A] (map (\<lambda>x. ''* '' @ x) ms))"
    by (intro sublist_join) simp
  then have "sublist (''* '' @ x) (verify_error ms)"
    unfolding verify_error_def by (intro sublist_append_left)
  moreover have "sublist x (''* '' @ x)" by (rule sublist_append_leftI)
  ultimately show ?thesis by (rule sublist_order.order.trans [rotated])
qed

lemma verify_reports_self_conflict:
  assumes i: "i < length children" "children ! i = (ln, SkippableLayer l)"
    and x: "x \<in> set (stashable_names l)" "x \<in> set (poppable_names l)"
  shows "verify_skippables children = Inl (TypeError (verify_error (verify_msgs children))) \<and>
         sublist (msg_both ln x) (verify_error (verify_msgs children))"
proof -
  let ?st1 = "fold verify_layer (take i children) \<lparr>stashed = [], popped = [], msgs = []\<rparr>"
  have "msg_both ln x \<in> set (msgs (verify_layer (children ! i) ?st1))"
    using x by (simp add: i(2) verify_layer_msgs_rest Let_def)
  then have "msg_both ln x \<in> set (msgs (verify_scan children))"
    unfolding verify_scan_def fold_verify_layer_split [OF i(1)]
    using fold_verify_layer_mono(3) by blast
  then have m: "msg_both ln x \<in> set (verify_msgs children)" using verify_msgs_scan by blast
  then have "verify_msgs children \<noteq> []" by auto
  then have "verify_skippables children = Inl (TypeError (verify_error (verify_msgs children)))"
    by (simp add: verify_skippables_def)
  with m show ?thesis by (simp add: sublist_verify_error)
qed

text \<open>
  A stage that declares \<open>x\<close> both ways, in terms of the message functions of the scan.
\<close>

lemma verify_layer_self_conflict:
  assumes x: "x \<in> set (stashable_names layer)" "x \<in> set (poppable_names layer)"
    and layer': "layer' = layer\<lparr>stashable_names := filter (\<lambda>n. n \<noteq> x) (stashable_names layer),
                                poppable_names := filter (\<lambda>n. n \<noteq> x) (poppable_names layer)\<rparr>"
  shows "msg_both layer_name x \<in> set (msgs (verify_layer (layer_name, SkippableLayer layer) st)) \<and>
         (namespaced layer x \<in> set (stashed (verify_layer (layer_name, SkippableLayer layer) st))
            \<longleftrightarrow> namespaced layer x \<in> set (stashed st)) \<and>
         (namespaced layer x \<in> set (popped (verify_layer (layer_name, SkippableLayer layer) st))
            \<longleftrightarrow> namespaced layer x \<in> set (popped st)) \<and>
         stashed (verify_layer (layer_name, SkippableLayer layer) st) =
           stashed (verify_layer (layer_name, SkippableLayer layer') st) \<and>
         popped (verify_layer (layer_name, SkippableLayer layer) st) =
           popped (verify_layer (layer_name, SkippableLayer layer') st) \<and>
         (\<exists>rest.
            msgs (verify_layer (layer_name, SkippableLayer layer) st) =
              msgs st @
              map (msg_both layer_name)
                (filter (\<lambda>n. n \<in> set (poppable_names layer)) (stashable_names layer)) @ rest \<and>
            msgs (verify_layer (layer_name, SkippableLayer layer') st) =
              msgs st @
              map (msg_both layer_name)
                (filter (\<lambda>n. n \<noteq> x \<and> n \<in> set (poppable_names layer)) (stashable_names layer)) @
              rest) \<and>
         (i < length children \<and> children ! i = (layer_name, SkippableLayer layer) \<longrightarrow>
            verify_skippables children = Inl (TypeError (verify_error (verify_msgs children))) \<and>
            sublist (msg_both layer_name x) (verify_error (verify_msgs children)))"
proof -
  let ?G = "\<lambda>l s. fold (verify_pop layer_name l) (poppable l)
                   (fold (verify_stash layer_name l) (stashable l) s)"
  have nsp: "namespaced layer' = namespaced layer"
    by (rule ext) (simp add: layer' namespaced_def)
  have st_eq: "fold (verify_stash layer_name layer') (stashable layer') s =
               fold (verify_stash layer_name layer) (stashable layer) s" for s
    unfolding stashable_def nsp
    by (simp add: layer') (rule fold_filter_skip;
        simp add: verify_stash_def namespaced_def x)
  have po_eq: "fold (verify_pop layer_name layer') (poppable layer') s =
               fold (verify_pop layer_name layer) (poppable layer) s" for s
    unfolding poppable_def nsp
    by (simp add: layer') (rule fold_filter_skip;
        simp add: verify_pop_def namespaced_def x)
  have G: "?G layer' s = ?G layer s" for s by (simp add: st_eq po_eq)
  let ?r = "?G layer (st\<lparr>msgs := []\<rparr>)"
  have both': "filter (\<lambda>name. name \<in> set (poppable_names layer')) (stashable_names layer') =
               filter (\<lambda>n. n \<noteq> x \<and> n \<in> set (poppable_names layer)) (stashable_names layer)"
    by (auto simp: layer' intro: filter_cong)
  have L: "verify_layer (layer_name, SkippableLayer layer) st =
           ?r\<lparr>msgs := (msgs st @ map (msg_both layer_name)
               (filter (\<lambda>n. n \<in> set (poppable_names layer)) (stashable_names layer))) @ msgs ?r\<rparr>"
    by (simp add: verify_layer_msgs_rest Let_def)
  have L': "verify_layer (layer_name, SkippableLayer layer') st =
           ?r\<lparr>msgs := (msgs st @ map (msg_both layer_name)
               (filter (\<lambda>n. n \<noteq> x \<and> n \<in> set (poppable_names layer)) (stashable_names layer))) @
               msgs ?r\<rparr>"
    unfolding verify_layer_msgs_rest Let_def both' G by simp
  have 1: "msg_both layer_name x \<in> set (msgs (verify_layer (layer_name, SkippableLayer layer) st))"
    using x by (simp add: L)
  have s_eq: "stashed (verify_layer (layer_name, SkippableLayer layer) st) =
           stashed (verify_layer (layer_name, SkippableLayer layer') st)"
    by (simp add: L L')
  have p_eq: "popped (verify_layer (layer_name, SkippableLayer layer) st) =
           popped (verify_layer (layer_name, SkippableLayer layer') st)"
    by (simp add: L L')
  have "namespaced layer x \<notin> set (stashable layer')"
    unfolding stashable_def nsp by (auto simp: namespaced_inj layer')
  then have 2: "namespaced layer x \<in> set (stashed (verify_layer (layer_name, SkippableLayer layer) st))
            \<longleftrightarrow> namespaced layer x \<in> set (stashed st)"
    using verify_layer_stashed_origin [of layer_name layer' st]
      verify_layer_mono(1) [of st "(layer_name, SkippableLayer layer)"]
    unfolding s_eq [symmetric] by auto
  have "namespaced layer x \<notin> set (poppable layer')"
    unfolding poppable_def nsp by (auto simp: namespaced_inj layer')
  then have 3: "namespaced layer x \<in> set (popped (verify_layer (layer_name, SkippableLayer layer) st))
            \<longleftrightarrow> namespaced layer x \<in> set (popped st)"
    using verify_layer_popped_origin [of layer_name layer' st]
      verify_layer_mono(2) [of st "(layer_name, SkippableLayer layer)"]
    unfolding p_eq [symmetric] by auto
  have 4: "\<exists>rest.
            msgs (verify_layer (layer_name, SkippableLayer layer) st) =
              msgs st @
              map (msg_both layer_name)
                (filter (\<lambda>n. n \<in> set (poppable_names layer)) (stashable_names layer)) @ rest \<and>
            msgs (verify_layer (layer_name, SkippableLayer layer') st) =
              msgs st @
              map (msg_both layer_name)
                (filter (\<lambda>n. n \<noteq> x \<and> n \<in> set (poppable_names layer)) (stashable_names layer)) @
              rest"
    by (rule exI [of _ "msgs ?r"]) (simp add: L L')
  have 5: "i < length children \<and> children ! i = (layer_name, SkippableLayer layer) \<longrightarrow>
            verify_skippables children = Inl (TypeError (verify_error (verify_msgs children))) \<and>
            sublist (msg_both layer_name x) (verify_error (verify_msgs children))"
    using verify_reports_self_conflict [of i children layer_name layer x] x by blast
  from 1 2 3 s_eq p_eq 4 5 show ?thesis by (intro conjI)
qed

text \<open>
  C5: for a stage that declares \<open>x\<close> both as stashable and as poppable, the scan of the
  stage appends the report \<open>'layer' declared 'x' both as stashable and as poppable\<close>, and for a
  sequence with that stage \<open>verify_skippables\<close> raises the \<open>TypeError\<close> whose text
  contains this report; the key of \<open>x\<close> is in \<open>stashed\<close> (in \<open>popped\<close>) after the stage
  only if it was before; and the stage leaves \<open>stashed\<close> and \<open>popped\<close> as the same stage
  without \<open>x\<close> in its two sets would, with the same messages but for the reports of
  self-conflicts: no other finding comes from its declaration of \<open>x\<close>.
\<close>

theorem C5_self_conflict:
  assumes x: "x \<in> set (stashable_names layer)" "x \<in> set (poppable_names layer)"
    and layer': "layer' = layer\<lparr>stashable_names := filter (\<lambda>n. n \<noteq> x) (stashable_names layer),
                                poppable_names := filter (\<lambda>n. n \<noteq> x) (poppable_names layer)\<rparr>"
  shows "([CHR 0x27] @ layer_name @ [CHR 0x27]) @ '' declared '' @ ([CHR 0x27] @ x @ [CHR 0x27]) @ '' both as stashable and as poppable''
           \<in> set (msgs (verify_layer (layer_name, SkippableLayer layer) st)) \<and>
         (namespaced layer x \<in> set (stashed (verify_layer (layer_name, SkippableLayer layer) st))
            \<longleftrightarrow> namespaced layer x \<in> set (stashed st)) \<and>
         (namespaced layer x \<in> set (popped (verify_layer (layer_name, SkippableLayer layer) st))
            \<longleftrightarrow> namespaced layer x \<in> set (popped st)) \<and>
         stashed (verify_layer (layer_name, SkippableLayer layer) st) =
           stashed (verify_layer (layer_name, SkippableLayer layer') st) \<and>
         popped (verify_layer (layer_name, SkippableLayer layer) st) =
           popped (verify_layer (layer_name, SkippableLayer layer') st) \<and>
         (\<exists>rest.
            msgs (verify_layer (layer_name, SkippableLayer layer) st) =
              msgs st @
              map (\<lambda>n. ([CHR 0x27] @ layer_name @ [CHR 0x27]) @ '' declared '' @ ([CHR 0x27] @ n @ [CHR 0x27]) @ '' both as stashable and as poppable'')
                (filter (\<lambda>n. n \<in> set (poppable_names layer)) (stashable_names layer)) @ rest \<and>
            msgs (verify_layer (layer_name, SkippableLayer layer') st) =
              msgs st @
              map (\<lambda>n. ([CHR 0x27] @ layer_name @ [CHR 0x27]) @ '' declared '' @ ([CHR 0x27] @ n @ [CHR 0x27]) @ '' both as stashable and as poppable'')
                (filter (\<lambda>n. n \<noteq> x \<and> n \<in> set (poppable_names layer)) (stashable_names layer)) @
              rest) \<and>
         (i < length children \<and> children ! i = (layer_name, SkippableLayer layer) \<longrightarrow>
            verify_skippables children = Inl (TypeError
              (''one or more pairs of stash and pop not matched:'' @ [CHR 0x0A, CHR 0x0A] @
         join [CHR 0x0A] (map (\<lambda>x. ''* '' @ x) (verify_msgs children)))) \<and>
            sublist (([CHR 0x27] @ layer_name @ [CHR 0x27]) @ '' declared '' @ ([CHR 0x27] @ x @ [CHR 0x27]) @ '' both as stashable and as poppable'')
              (''one or more pairs of stash and pop not matched:'' @ [CHR 0x0A, CHR 0x0A] @
         join [CHR 0x0A] (map (\<lambda>x. ''* '' @ x) (verify_msgs children))))"
  by (rule verify_layer_self_conflict [OF x layer', unfolded msg_both_def [abs_def] quoted_def verify_error_def])


text \<open>
  C5, a witness: a stage that declares \<open>x\<close> and \<open>y\<close> as stashable and \<open>x\<close> as
  poppable, at the start of a scan and as the only stage of a sequence.
\<close>

theorem C5_self_conflict_witness:
  "([CHR 0x27] @ ''0'' @ [CHR 0x27]) @ '' declared '' @ ([CHR 0x27] @ ''x'' @ [CHR 0x27]) @ '' both as stashable and as poppable''
     \<in> set (msgs (verify_layer
      (''0'', SkippableLayer (init 1 (\<lambda>x::nat. (Output x :: (nat, nat) module_result)) [''x'', ''y''] [''x'']))
      \<lparr>stashed = [], popped = [], msgs = []\<rparr>)) \<and>
   (None, ''x'') \<notin> set (stashed (verify_layer
      (''0'', SkippableLayer (init 1 (\<lambda>x::nat. (Output x :: (nat, nat) module_result)) [''x'', ''y''] [''x'']))
      \<lparr>stashed = [], popped = [], msgs = []\<rparr>)) \<and>
   (None, ''x'') \<notin> set (popped (verify_layer
      (''0'', SkippableLayer (init 1 (\<lambda>x::nat. (Output x :: (nat, nat) module_result)) [''x'', ''y''] [''x'']))
      \<lparr>stashed = [], popped = [], msgs = []\<rparr>)) \<and>
   (\<exists>e. verify_skippables
           [(''0'', SkippableLayer (init 1 (\<lambda>x::nat. (Output x :: (nat, nat) module_result)) [''x'', ''y''] [''x'']))] = Inl (TypeError e) \<and>
        sublist (([CHR 0x27] @ ''0'' @ [CHR 0x27]) @ '' declared '' @ ([CHR 0x27] @ ''x'' @ [CHR 0x27]) @ '' both as stashable and as poppable'') e)"
proof -
  let ?L = "init 1 (\<lambda>x::nat. (Output x :: (nat, nat) module_result)) [''x'', ''y''] [''x'']"
  let ?init = "\<lparr>stashed = [], popped = [], msgs = []\<rparr>"
  have s: "''x'' \<in> set (stashable_names ?L)" by (simp add: init_def)
  have p: "''x'' \<in> set (poppable_names ?L)" by (simp add: init_def)
  have k: "namespaced ?L ''x'' = (None, ''x'')" by (simp add: namespaced_def init_def)
  have i: "0 < length [(''0'', SkippableLayer ?L)] \<and>
           [(''0'', SkippableLayer ?L)] ! 0 = (''0'', SkippableLayer ?L)"
    by simp
  note c = C5_self_conflict [OF s p refl, of "''0''" ?init 0 "[(''0'', SkippableLayer ?L)]"]
  note c1 = c [THEN conjunct1]
  note c2 = c [THEN conjunct2, THEN conjunct1]
  note c3 = c [THEN conjunct2, THEN conjunct2, THEN conjunct1]
  note c7 = c [THEN conjunct2, THEN conjunct2, THEN conjunct2, THEN conjunct2, THEN conjunct2,
               THEN conjunct2, THEN mp, OF i]
  have c8: "\<exists>e. verify_skippables [(''0'', SkippableLayer ?L)] = Inl (TypeError e) \<and>
        sublist (([CHR 0x27] @ ''0'' @ [CHR 0x27]) @ '' declared '' @ ([CHR 0x27] @ ''x'' @ [CHR 0x27]) @ '' both as stashable and as poppable'') e"
    using c7 by blast
  have c2': "(None, ''x'') \<notin> set (stashed (verify_layer (''0'', SkippableLayer ?L) ?init))"
    using c2 unfolding k by simp
  have c3': "(None, ''x'') \<notin> set (popped (verify_layer (''0'', SkippableLayer ?L) ?init))"
    using c3 unfolding k by simp
  from c1 c2' c3' c8 show ?thesis by (intro conjI)
qed


lemma fold_verify_stash_fresh:
  "distinct keys \<Longrightarrow> set keys \<inter> set (stashed st) = {} \<Longrightarrow>
   \<forall>k\<in>set keys. snd k \<notin> set (poppable_names l) \<Longrightarrow>
   msgs (fold (verify_stash ln l) keys st) = msgs st \<and>
   set (stashed (fold (verify_stash ln l) keys st)) = set keys \<union> set (stashed st)"
proof (induction keys arbitrary: st)
  case Nil
  then show ?case by simp
next
  case (Cons k keys)
  let ?s = "verify_stash ln l k st"
  have step: "msgs ?s = msgs st \<and> set (stashed ?s) = insert k (set (stashed st))"
    using Cons.prems by (simp add: verify_stash_def case_prod_beta)
  have "msgs (fold (verify_stash ln l) keys ?s) = msgs ?s \<and>
        set (stashed (fold (verify_stash ln l) keys ?s)) = set keys \<union> set (stashed ?s)"
    using Cons.prems step by (intro Cons.IH) auto
  then show ?case using step by auto
qed

lemma fold_verify_pop_fresh:
  "distinct keys \<Longrightarrow> set keys \<inter> set (popped st) = {} \<Longrightarrow> set keys \<subseteq> set (stashed st) \<Longrightarrow>
   \<forall>k\<in>set keys. snd k \<notin> set (stashable_names l) \<Longrightarrow>
   msgs (fold (verify_pop ln l) keys st) = msgs st \<and>
   set (popped (fold (verify_pop ln l) keys st)) = set keys \<union> set (popped st)"
proof (induction keys arbitrary: st)
  case Nil
  then show ?case by simp
next
  case (Cons k keys)
  let ?s = "verify_pop ln l k st"
  have step: "msgs ?s = msgs st \<and> set (popped ?s) = insert k (set (popped st)) \<and>
              stashed ?s = stashed st"
    using Cons.prems by (simp add: verify_pop_def case_prod_beta)
  have "msgs (fold (verify_pop ln l) keys ?s) = msgs ?s \<and>
        set (popped (fold (verify_pop ln l) keys ?s)) = set keys \<union> set (popped ?s)"
    using Cons.prems step by (intro Cons.IH) auto
  then show ?case using step by auto
qed

lemma verify_layer_fresh:
  assumes names: "distinct (stashable_names l)" "distinct (poppable_names l)"
      "set (stashable_names l) \<inter> set (poppable_names l) = {}"
    and s: "set (stashable l) \<inter> set (stashed st) = {}"
    and p: "set (poppable l) \<inter> set (popped st) = {}"
    and sp: "set (poppable l) \<subseteq> set (stashed st)"
  shows "msgs (verify_layer (ln, SkippableLayer l) st) = msgs st \<and>
         set (stashed (verify_layer (ln, SkippableLayer l) st)) = set (stashable l) \<union> set (stashed st) \<and>
         set (popped (verify_layer (ln, SkippableLayer l) st)) = set (poppable l) \<union> set (popped st)"
proof -
  let ?b = "verify_both ln l st"
  let ?s = "fold (verify_stash ln l) (stashable l) ?b"
  have nob: "filter (\<lambda>name. name \<in> set (poppable_names l)) (stashable_names l) = []"
    using names(3) by (auto simp: filter_empty_conv)
  have b: "?b = st" by (simp add: verify_both_eq nob)
  have ds: "distinct (stashable l)"
    using names(1) by (simp add: stashable_def distinct_map inj_on_def namespaced_inj)
  have dp: "distinct (poppable l)"
    using names(2) by (simp add: poppable_def distinct_map inj_on_def namespaced_inj)
  have ks: "\<forall>k\<in>set (stashable l). snd k \<notin> set (poppable_names l)"
    using names(3) by (auto simp: stashable_def)
  have kp: "\<forall>k\<in>set (poppable l). snd k \<notin> set (stashable_names l)"
    using names(3) by (auto simp: poppable_def)
  have 1: "msgs ?s = msgs st \<and> set (stashed ?s) = set (stashable l) \<union> set (stashed st)"
    unfolding b using ds s ks by (rule fold_verify_stash_fresh)
  have ps: "popped ?s = popped st" unfolding b by (simp add: fold_verify_stash_fields(1))
  have 2: "msgs (fold (verify_pop ln l) (poppable l) ?s) = msgs ?s \<and>
           set (popped (fold (verify_pop ln l) (poppable l) ?s)) = set (poppable l) \<union> set (popped ?s)"
    using dp _ _ kp
  proof (rule fold_verify_pop_fresh)
    show "set (poppable l) \<inter> set (popped ?s) = {}" using p ps by simp
    show "set (poppable l) \<subseteq> set (stashed ?s)" using sp 1 by auto
  qed
  show ?thesis
    using 1 2 ps by (simp add: verify_layer_Skippable fold_verify_pop_fields(1))
qed

lemma verify_well_formed:
  assumes w1: "\<forall>i<length cs. \<forall>ln l. cs ! i = (ln, SkippableLayer l) \<longrightarrow>
                 distinct (stashable_names l) \<and> distinct (poppable_names l) \<and>
                 set (stashable_names l) \<inter> set (poppable_names l) = {}"
    and w2: "\<forall>j<length cs. \<forall>i<j. \<forall>lni li lnj lj. cs ! i = (lni, SkippableLayer li) \<and>
                 cs ! j = (lnj, SkippableLayer lj) \<longrightarrow> set (stashable li) \<inter> set (stashable lj) = {}"
    and w3: "\<forall>j<length cs. \<forall>i<j. \<forall>lni li lnj lj. cs ! i = (lni, SkippableLayer li) \<and>
                 cs ! j = (lnj, SkippableLayer lj) \<longrightarrow> set (poppable li) \<inter> set (poppable lj) = {}"
    and w4: "\<forall>j<length cs. \<forall>lnj lj. cs ! j = (lnj, SkippableLayer lj) \<longrightarrow>
                 (\<forall>key\<in>set (poppable lj). \<exists>i<j. \<exists>lni li. cs ! i = (lni, SkippableLayer li) \<and>
                    key \<in> set (stashable li))"
    and w5: "\<forall>i<length cs. \<forall>lni li. cs ! i = (lni, SkippableLayer li) \<longrightarrow>
                 (\<forall>key\<in>set (stashable li). \<exists>j<length cs. \<exists>lnj lj. cs ! j = (lnj, SkippableLayer lj) \<and>
                    key \<in> set (poppable lj))"
  shows "verify_msgs cs = []"
proof -
  let ?init = "\<lparr>stashed = [], popped = [], msgs = []\<rparr>"
  let ?S = "\<lambda>n. {key. \<exists>i<n. \<exists>ln l. cs ! i = (ln, SkippableLayer l) \<and> key \<in> set (stashable l)}"
  let ?P = "\<lambda>n. {key. \<exists>i<n. \<exists>ln l. cs ! i = (ln, SkippableLayer l) \<and> key \<in> set (poppable l)}"
  have inv: "n \<le> length cs \<Longrightarrow>
      msgs (fold verify_layer (take n cs) ?init) = [] \<and>
      set (stashed (fold verify_layer (take n cs) ?init)) = ?S n \<and>
      set (popped (fold verify_layer (take n cs) ?init)) = ?P n" for n
  proof (induction n)
    case 0
    then show ?case by simp
  next
    case (Suc n)
    then have n: "n < length cs" by simp
    let ?st = "fold verify_layer (take n cs) ?init"
    have IH: "msgs ?st = []" "set (stashed ?st) = ?S n" "set (popped ?st) = ?P n"
      using Suc by simp_all
    have step: "fold verify_layer (take (Suc n) cs) ?init = verify_layer (cs ! n) ?st"
      using n by (simp add: take_Suc_conv_app_nth)
    obtain ln y where c: "cs ! n = (ln, y)" by (cases "cs ! n")
    show ?case
    proof (cases y)
      case OtherLayer
      have "?S (Suc n) = ?S n" using c OtherLayer by (auto simp: less_Suc_eq)
      moreover have "?P (Suc n) = ?P n" using c OtherLayer by (auto simp: less_Suc_eq)
      ultimately show ?thesis using IH c OtherLayer by (simp add: step)
    next
      case (SkippableLayer l)
      have cl: "cs ! n = (ln, SkippableLayer l)" using c SkippableLayer by simp
      have names: "distinct (stashable_names l)" "distinct (poppable_names l)"
        "set (stashable_names l) \<inter> set (poppable_names l) = {}"
        using w1 n cl by blast+
      have s: "set (stashable l) \<inter> set (stashed ?st) = {}"
      proof (rule ccontr)
        assume "set (stashable l) \<inter> set (stashed ?st) \<noteq> {}"
        then obtain key where "key \<in> set (stashable l)" "key \<in> set (stashed ?st)" by blast
        then have "key \<in> ?S n" unfolding IH(2) by simp
        with \<open>key \<in> set (stashable l)\<close> have "key \<in> set (stashable l)" "key \<in> ?S n" by simp_all
        then obtain i lni li where "i < n" "cs ! i = (lni, SkippableLayer li)"
          "key \<in> set (stashable li)" by blast
        with w2 n cl \<open>key \<in> set (stashable l)\<close> show False by blast
      qed
      have p: "set (poppable l) \<inter> set (popped ?st) = {}"
      proof (rule ccontr)
        assume "set (poppable l) \<inter> set (popped ?st) \<noteq> {}"
        then obtain key where "key \<in> set (poppable l)" "key \<in> set (popped ?st)" by blast
        then have "key \<in> ?P n" unfolding IH(3) by simp
        with \<open>key \<in> set (poppable l)\<close> have "key \<in> set (poppable l)" "key \<in> ?P n" by simp_all
        then obtain i lni li where "i < n" "cs ! i = (lni, SkippableLayer li)"
          "key \<in> set (poppable li)" by blast
        with w3 n cl \<open>key \<in> set (poppable l)\<close> show False by blast
      qed
      have sp: "set (poppable l) \<subseteq> set (stashed ?st)"
      proof
        fix key assume "key \<in> set (poppable l)"
        with w4 n cl have "\<exists>i<n. \<exists>lni li. cs ! i = (lni, SkippableLayer li) \<and>
                    key \<in> set (stashable li)" by blast
        then show "key \<in> set (stashed ?st)" unfolding IH(2) by blast
      qed
      from verify_layer_fresh [OF names s p sp, of ln]
      have L: "msgs (verify_layer (cs ! n) ?st) = []"
        "set (stashed (verify_layer (cs ! n) ?st)) = set (stashable l) \<union> ?S n"
        "set (popped (verify_layer (cs ! n) ?st)) = set (poppable l) \<union> ?P n"
        using IH cl by simp_all
      have "?S (Suc n) = set (stashable l) \<union> ?S n"
        using cl by (auto simp: less_Suc_eq)
      moreover have "?P (Suc n) = set (poppable l) \<union> ?P n"
        using cl by (auto simp: less_Suc_eq)
      ultimately show ?thesis using L by (simp add: step)
    qed
  qed
  from inv [of "length cs"]
  have fin: "msgs (verify_scan cs) = []" "set (stashed (verify_scan cs)) = ?S (length cs)"
    "set (popped (verify_scan cs)) = ?P (length cs)"
    by (simp_all add: verify_scan_def)
  have "?S (length cs) \<subseteq> ?P (length cs)"
  proof
    fix key assume "key \<in> ?S (length cs)"
    then obtain i ln l where "i < length cs" "cs ! i = (ln, SkippableLayer l)"
      "key \<in> set (stashable l)" by auto
    with w5 show "key \<in> ?P (length cs)" by blast
  qed
  then have "set (stashed (verify_scan cs)) \<subseteq> set (popped (verify_scan cs))"
    unfolding fin(2,3) .
  then have "filter (\<lambda>key. key \<notin> set (popped (verify_scan cs))) (stashed (verify_scan cs)) = []"
    by (auto simp: filter_empty_conv)
  then show ?thesis using fin(1) by (simp add: verify_msgs_def Let_def)
qed

subsection \<open>The findings of the scan, exactly\<close>

lemma verify_stash_cases:
  "snd k \<in> set (poppable_names l) \<Longrightarrow> verify_stash ln l k st = st"
  "snd k \<notin> set (poppable_names l) \<Longrightarrow> k \<in> set (stashed st) \<Longrightarrow>
     verify_stash ln l k st = st\<lparr>msgs := msgs st @ [msg_redeclared_stashable ln (snd k)]\<rparr>"
  "snd k \<notin> set (poppable_names l) \<Longrightarrow> k \<notin> set (stashed st) \<Longrightarrow>
     verify_stash ln l k st = st\<lparr>stashed := List.insert k (stashed st)\<rparr>"
  by (simp_all add: verify_stash_def case_prod_beta)

lemma verify_pop_cases:
  "snd k \<in> set (stashable_names l) \<Longrightarrow> verify_pop ln l k st = st"
  "snd k \<notin> set (stashable_names l) \<Longrightarrow> k \<in> set (popped st) \<Longrightarrow>
     verify_pop ln l k st = st\<lparr>msgs := msgs st @ [msg_redeclared_poppable ln (snd k)]\<rparr>"
  "snd k \<notin> set (stashable_names l) \<Longrightarrow> k \<notin> set (popped st) \<Longrightarrow> k \<notin> set (stashed st) \<Longrightarrow>
     verify_pop ln l k st = st\<lparr>msgs := msgs st @ [msg_not_stashed ln (snd k)]\<rparr>"
  "snd k \<notin> set (stashable_names l) \<Longrightarrow> k \<notin> set (popped st) \<Longrightarrow> k \<in> set (stashed st) \<Longrightarrow>
     verify_pop ln l k st = st\<lparr>popped := List.insert k (popped st)\<rparr>"
  by (simp_all add: verify_pop_def case_prod_beta)

lemma fold_verify_stash_exact:
  "distinct keys \<Longrightarrow>
   set (stashed (fold (verify_stash ln l) keys st)) =
     set (stashed st) \<union> {k \<in> set keys. snd k \<notin> set (poppable_names l)} \<and>
   set (msgs (fold (verify_stash ln l) keys st)) =
     set (msgs st) \<union>
     (\<lambda>k. msg_redeclared_stashable ln (snd k)) `
       {k \<in> set keys. snd k \<notin> set (poppable_names l) \<and> k \<in> set (stashed st)}"
proof (induction keys arbitrary: st)
  case Nil
  then show ?case by simp
next
  case (Cons k keys)
  let ?st = "verify_stash ln l k st"
  have k: "k \<notin> set keys" and d: "distinct keys" using Cons.prems by simp_all
  note IH = Cons.IH [OF d, of ?st]
  consider (self) "snd k \<in> set (poppable_names l)"
    | (dup) "snd k \<notin> set (poppable_names l)" "k \<in> set (stashed st)"
    | (new) "snd k \<notin> set (poppable_names l)" "k \<notin> set (stashed st)"
    by blast
  then show ?case
  proof cases
    case self
    then have "?st = st" by (rule verify_stash_cases)
    then show ?thesis using IH self by auto
  next
    case dup
    then have "?st = st\<lparr>msgs := msgs st @ [msg_redeclared_stashable ln (snd k)]\<rparr>"
      by (rule verify_stash_cases)
    then show ?thesis using IH dup by auto
  next
    case new
    then have e: "?st = st\<lparr>stashed := List.insert k (stashed st)\<rparr>"
      by (rule verify_stash_cases)
    have "{k' \<in> set keys. snd k' \<notin> set (poppable_names l) \<and> k' \<in> set (stashed ?st)} =
          {k' \<in> set keys. snd k' \<notin> set (poppable_names l) \<and> k' \<in> set (stashed st)}"
      using k by (auto simp: e)
    then show ?thesis using IH new by (auto simp: e)
  qed
qed

lemma fold_verify_pop_exact:
  "distinct keys \<Longrightarrow>
   set (popped (fold (verify_pop ln l) keys st)) =
     set (popped st) \<union> {k \<in> set keys. snd k \<notin> set (stashable_names l) \<and> k \<in> set (stashed st)} \<and>
   set (msgs (fold (verify_pop ln l) keys st)) =
     set (msgs st) \<union>
     (\<lambda>k. msg_redeclared_poppable ln (snd k)) `
       {k \<in> set keys. snd k \<notin> set (stashable_names l) \<and> k \<in> set (popped st)} \<union>
     (\<lambda>k. msg_not_stashed ln (snd k)) `
       {k \<in> set keys. snd k \<notin> set (stashable_names l) \<and> k \<notin> set (popped st) \<and>
          k \<notin> set (stashed st)}"
proof (induction keys arbitrary: st)
  case Nil
  then show ?case by simp
next
  case (Cons k keys)
  let ?st = "verify_pop ln l k st"
  have k: "k \<notin> set keys" and d: "distinct keys" using Cons.prems by simp_all
  note IH = Cons.IH [OF d, of ?st]
  have s: "stashed ?st = stashed st" by (rule verify_pop_fields(1))
  consider (self) "snd k \<in> set (stashable_names l)"
    | (dup) "snd k \<notin> set (stashable_names l)" "k \<in> set (popped st)"
    | (missing) "snd k \<notin> set (stashable_names l)" "k \<notin> set (popped st)" "k \<notin> set (stashed st)"
    | (new) "snd k \<notin> set (stashable_names l)" "k \<notin> set (popped st)" "k \<in> set (stashed st)"
    by blast
  then show ?case
  proof cases
    case self
    then have "?st = st" by (rule verify_pop_cases)
    then show ?thesis using IH self by auto
  next
    case dup
    then have "?st = st\<lparr>msgs := msgs st @ [msg_redeclared_poppable ln (snd k)]\<rparr>"
      by (rule verify_pop_cases)
    then show ?thesis using IH dup by auto
  next
    case missing
    then have "?st = st\<lparr>msgs := msgs st @ [msg_not_stashed ln (snd k)]\<rparr>"
      by (rule verify_pop_cases)
    then show ?thesis using IH missing by auto
  next
    case new
    then have e: "?st = st\<lparr>popped := List.insert k (popped st)\<rparr>"
      by (rule verify_pop_cases)
    have 1: "{k' \<in> set keys. snd k' \<notin> set (stashable_names l) \<and> k' \<in> set (popped ?st)} =
          {k' \<in> set keys. snd k' \<notin> set (stashable_names l) \<and> k' \<in> set (popped st)}"
      using k by (auto simp: e)
    have 2: "{k' \<in> set keys. snd k' \<notin> set (stashable_names l) \<and> k' \<notin> set (popped ?st) \<and>
               k' \<notin> set (stashed ?st)} =
          {k' \<in> set keys. snd k' \<notin> set (stashable_names l) \<and> k' \<notin> set (popped st) \<and>
               k' \<notin> set (stashed st)}"
      using k by (auto simp: e)
    show ?thesis using IH new unfolding 1 2 s by (auto simp: e)
  qed
qed

lemma verify_layer_exact:
  assumes "distinct (stashable_names l)" "distinct (poppable_names l)"
  shows "set (stashed (verify_layer (ln, SkippableLayer l) st)) =
           set (stashed st) \<union> {k \<in> set (stashable l). snd k \<notin> set (poppable_names l)}"
    and "set (popped (verify_layer (ln, SkippableLayer l) st)) =
           set (popped st) \<union>
           {k \<in> set (poppable l). snd k \<notin> set (stashable_names l) \<and> k \<in> set (stashed st)}"
    and "set (msgs (verify_layer (ln, SkippableLayer l) st)) =
           set (msgs st) \<union>
           msg_both ln ` (set (stashable_names l) \<inter> set (poppable_names l)) \<union>
           (\<lambda>k. msg_redeclared_stashable ln (snd k)) `
             {k \<in> set (stashable l). snd k \<notin> set (poppable_names l) \<and> k \<in> set (stashed st)} \<union>
           (\<lambda>k. msg_redeclared_poppable ln (snd k)) `
             {k \<in> set (poppable l). snd k \<notin> set (stashable_names l) \<and> k \<in> set (popped st)} \<union>
           (\<lambda>k. msg_not_stashed ln (snd k)) `
             {k \<in> set (poppable l). snd k \<notin> set (stashable_names l) \<and> k \<notin> set (popped st) \<and>
                k \<notin> set (stashed st)}"
proof -
  let ?b = "verify_both ln l st"
  let ?s = "fold (verify_stash ln l) (stashable l) ?b"
  let ?p = "fold (verify_pop ln l) (poppable l) ?s"
  have ds: "distinct (stashable l)"
    using assms(1) by (simp add: stashable_def distinct_map inj_on_def namespaced_inj)
  have dp: "distinct (poppable l)"
    using assms(2) by (simp add: poppable_def distinct_map inj_on_def namespaced_inj)
  have b: "set (msgs ?b) = set (msgs st) \<union>
             msg_both ln ` (set (stashable_names l) \<inter> set (poppable_names l))"
    by (auto simp: verify_both_eq)
  note S = fold_verify_stash_exact [OF ds, of ln l ?b]
  note P = fold_verify_pop_exact [OF dp, of ln l ?s]
  have ps: "popped ?s = popped st" by (simp add: fold_verify_stash_fields(1))
  have ss: "set (stashed ?s) = set (stashed st) \<union> {k \<in> set (stashable l). snd k \<notin> set (poppable_names l)}"
    using S by simp
  have in_s: "k \<in> set (stashed ?s) \<longleftrightarrow> k \<in> set (stashed st)"
    if "snd k \<notin> set (stashable_names l)" for k
    using that unfolding ss by (auto simp: stashable_def)
  have e1: "{k \<in> set (poppable l). snd k \<notin> set (stashable_names l) \<and> k \<in> set (stashed ?s)} =
            {k \<in> set (poppable l). snd k \<notin> set (stashable_names l) \<and> k \<in> set (stashed st)}"
    using in_s by blast
  have e2: "{k \<in> set (poppable l). snd k \<notin> set (stashable_names l) \<and> k \<notin> set (popped st) \<and>
              k \<notin> set (stashed ?s)} =
            {k \<in> set (poppable l). snd k \<notin> set (stashable_names l) \<and> k \<notin> set (popped st) \<and>
              k \<notin> set (stashed st)}"
    using in_s by blast
  show "set (stashed (verify_layer (ln, SkippableLayer l) st)) =
           set (stashed st) \<union> {k \<in> set (stashable l). snd k \<notin> set (poppable_names l)}"
    using ss by (simp add: verify_layer_Skippable fold_verify_pop_fields(1))
  show "set (popped (verify_layer (ln, SkippableLayer l) st)) =
           set (popped st) \<union>
           {k \<in> set (poppable l). snd k \<notin> set (stashable_names l) \<and> k \<in> set (stashed st)}"
    using P [THEN conjunct1] unfolding e1 ps by (simp add: verify_layer_Skippable)
  have "set (msgs ?s) = set (msgs ?b) \<union>
     (\<lambda>k. msg_redeclared_stashable ln (snd k)) `
       {k \<in> set (stashable l). snd k \<notin> set (poppable_names l) \<and> k \<in> set (stashed st)}"
    using S [THEN conjunct2] by simp
  then show "set (msgs (verify_layer (ln, SkippableLayer l) st)) =
           set (msgs st) \<union>
           msg_both ln ` (set (stashable_names l) \<inter> set (poppable_names l)) \<union>
           (\<lambda>k. msg_redeclared_stashable ln (snd k)) `
             {k \<in> set (stashable l). snd k \<notin> set (poppable_names l) \<and> k \<in> set (stashed st)} \<union>
           (\<lambda>k. msg_redeclared_poppable ln (snd k)) `
             {k \<in> set (poppable l). snd k \<notin> set (stashable_names l) \<and> k \<in> set (popped st)} \<union>
           (\<lambda>k. msg_not_stashed ln (snd k)) `
             {k \<in> set (poppable l). snd k \<notin> set (stashable_names l) \<and> k \<notin> set (popped st) \<and>
                k \<notin> set (stashed st)}"
    using P [THEN conjunct2] unfolding ps e2 b by (simp add: verify_layer_Skippable)
qed

lemma verify_msgs_exact:
  fixes cs :: "(string \<times> ('t, 'p) layer) list"
  assumes dist: "\<forall>c\<in>set cs. \<forall>l. snd c = SkippableLayer l \<longrightarrow>
                   distinct (stashable_names l) \<and> distinct (poppable_names l)"
  shows "m \<in> set (verify_msgs cs) \<longleftrightarrow>
     (\<exists>j ln l x. j < length cs \<and> cs ! j = (ln, SkippableLayer l) \<and>
        x \<in> set (stashable_names l) \<and> x \<in> set (poppable_names l) \<and> m = msg_both ln x) \<or>
     (\<exists>j ln l key. j < length cs \<and> cs ! j = (ln, SkippableLayer l) \<and>
        key \<in> set (stashable l) \<and> snd key \<notin> set (poppable_names l) \<and>
        (\<exists>i<j. \<exists>lni li. cs ! i = (lni, SkippableLayer li) \<and>
           key \<in> set (stashable li) \<and> snd key \<notin> set (poppable_names li)) \<and>
        m = msg_redeclared_stashable ln (snd key)) \<or>
     (\<exists>j ln l key. j < length cs \<and> cs ! j = (ln, SkippableLayer l) \<and>
        key \<in> set (poppable l) \<and> snd key \<notin> set (stashable_names l) \<and>
        (\<exists>i<j. \<exists>lni li. cs ! i = (lni, SkippableLayer li) \<and>
           key \<in> set (poppable li) \<and> snd key \<notin> set (stashable_names li) \<and>
           (\<exists>h<i. \<exists>lnh lh. cs ! h = (lnh, SkippableLayer lh) \<and>
              key \<in> set (stashable lh) \<and> snd key \<notin> set (poppable_names lh))) \<and>
        m = msg_redeclared_poppable ln (snd key)) \<or>
     (\<exists>j ln l key. j < length cs \<and> cs ! j = (ln, SkippableLayer l) \<and>
        key \<in> set (poppable l) \<and> snd key \<notin> set (stashable_names l) \<and>
        \<not> (\<exists>h<j. \<exists>lnh lh. cs ! h = (lnh, SkippableLayer lh) \<and>
              key \<in> set (stashable lh) \<and> snd key \<notin> set (poppable_names lh)) \<and>
        m = msg_not_stashed ln (snd key)) \<or>
     (\<exists>key.
        (\<exists>h<length cs. \<exists>lnh lh. cs ! h = (lnh, SkippableLayer lh) \<and>
           key \<in> set (stashable lh) \<and> snd key \<notin> set (poppable_names lh)) \<and>
        \<not> (\<exists>i<length cs. \<exists>lni li. cs ! i = (lni, SkippableLayer li) \<and>
              key \<in> set (poppable li) \<and> snd key \<notin> set (stashable_names li) \<and>
              (\<exists>h<i. \<exists>lnh lh. cs ! h = (lnh, SkippableLayer lh) \<and>
                 key \<in> set (stashable lh) \<and> snd key \<notin> set (poppable_names lh))) \<and>
        m = msg_not_poppable (snd key))"
proof -
  let ?init = "\<lparr>stashed = [], popped = [], msgs = []\<rparr>"
  define marks where "marks = (\<lambda>i key. \<exists>ln l. cs ! i = (ln, SkippableLayer l) \<and>
      key \<in> set (stashable l) \<and> snd key \<notin> set (poppable_names l))"
  define pops where "pops = (\<lambda>i key. \<exists>ln l. cs ! i = (ln, SkippableLayer l) \<and>
      key \<in> set (poppable l) \<and> snd key \<notin> set (stashable_names l))"
  define S where "S = (\<lambda>n. {key. \<exists>i<n. marks i key})"
  define P where "P = (\<lambda>n. {key. \<exists>i<n. pops i key \<and> (\<exists>h<i. marks h key)})"
  define viol where "viol = (\<lambda>j m. \<exists>ln l. cs ! j = (ln, SkippableLayer l) \<and>
      ((\<exists>x. x \<in> set (stashable_names l) \<and> x \<in> set (poppable_names l) \<and> m = msg_both ln x) \<or>
       (\<exists>key. key \<in> set (stashable l) \<and> snd key \<notin> set (poppable_names l) \<and> key \<in> S j \<and>
          m = msg_redeclared_stashable ln (snd key)) \<or>
       (\<exists>key. key \<in> set (poppable l) \<and> snd key \<notin> set (stashable_names l) \<and> key \<in> P j \<and>
          m = msg_redeclared_poppable ln (snd key)) \<or>
       (\<exists>key. key \<in> set (poppable l) \<and> snd key \<notin> set (stashable_names l) \<and> key \<notin> S j \<and>
          m = msg_not_stashed ln (snd key))))"
  define V where "V = (\<lambda>n. {m. \<exists>j<n. viol j m})"
  have PS: "P n \<subseteq> S n" for n
    unfolding P_def S_def using less_trans by blast
  have S_Suc: "S (Suc n) = S n \<union> {key. marks n key}" for n
    by (auto simp: S_def less_Suc_eq)
  have P_Suc: "P (Suc n) = P n \<union> {key. pops n key \<and> key \<in> S n}" for n
    by (auto simp: P_def S_def less_Suc_eq)
  have V_Suc: "V (Suc n) = V n \<union> {m. viol n m}" for n
    by (auto simp: V_def less_Suc_eq)
  have inv: "n \<le> length cs \<Longrightarrow>
      set (stashed (fold verify_layer (take n cs) ?init)) = S n \<and>
      set (popped (fold verify_layer (take n cs) ?init)) = P n \<and>
      set (msgs (fold verify_layer (take n cs) ?init)) = V n" for n
  proof (induction n)
    case 0
    show ?case by (simp add: S_def P_def V_def)
  next
    case (Suc n)
    then have n: "n < length cs" by simp
    let ?st = "fold verify_layer (take n cs) ?init"
    have IH: "set (stashed ?st) = S n" "set (popped ?st) = P n" "set (msgs ?st) = V n"
      using Suc by simp_all
    have step: "fold verify_layer (take (Suc n) cs) ?init = verify_layer (cs ! n) ?st"
      using n by (simp add: take_Suc_conv_app_nth)
    obtain ln y where c: "cs ! n = (ln, y)" by (cases "cs ! n")
    show ?case
    proof (cases y)
      case OtherLayer
      have e1: "{key. marks n key} = {}" by (simp add: marks_def c OtherLayer)
      have e2: "{key. pops n key \<and> key \<in> S n} = {}" by (simp add: pops_def c OtherLayer)
      have e3: "{m. viol n m} = {}" by (simp add: viol_def c OtherLayer)
      have "S (Suc n) = S n" unfolding S_Suc e1 by simp
      moreover have "P (Suc n) = P n" unfolding P_Suc e2 by simp
      moreover have "V (Suc n) = V n" unfolding V_Suc e3 by simp
      ultimately show ?thesis
        using IH by (simp add: step c OtherLayer)
    next
      case (SkippableLayer l)
      have cl: "cs ! n = (ln, SkippableLayer l)" using c SkippableLayer by simp
      have "cs ! n \<in> set cs" using n by simp
      then have d: "distinct (stashable_names l)" "distinct (poppable_names l)"
        using dist cl by force+
      note L = verify_layer_exact [OF d, of ln ?st, unfolded IH]
      have m: "{key. marks n key} = {k \<in> set (stashable l). snd k \<notin> set (poppable_names l)}"
        by (auto simp: marks_def cl)
      have p: "{key. pops n key \<and> key \<in> S n} =
               {k \<in> set (poppable l). snd k \<notin> set (stashable_names l) \<and> k \<in> S n}"
        by (auto simp: pops_def cl)
      have ns: "k \<notin> P n \<and> k \<notin> S n \<longleftrightarrow> k \<notin> S n" for k using PS [of n] by blast
      have v: "{m. viol n m} =
           msg_both ln ` (set (stashable_names l) \<inter> set (poppable_names l)) \<union>
           (\<lambda>k. msg_redeclared_stashable ln (snd k)) `
             {k \<in> set (stashable l). snd k \<notin> set (poppable_names l) \<and> k \<in> S n} \<union>
           (\<lambda>k. msg_redeclared_poppable ln (snd k)) `
             {k \<in> set (poppable l). snd k \<notin> set (stashable_names l) \<and> k \<in> P n} \<union>
           (\<lambda>k. msg_not_stashed ln (snd k)) `
             {k \<in> set (poppable l). snd k \<notin> set (stashable_names l) \<and> k \<notin> P n \<and> k \<notin> S n}"
      proof -
        have vv: "viol n m \<longleftrightarrow>
            (\<exists>x. x \<in> set (stashable_names l) \<and> x \<in> set (poppable_names l) \<and> m = msg_both ln x) \<or>
            (\<exists>key. key \<in> set (stashable l) \<and> snd key \<notin> set (poppable_names l) \<and> key \<in> S n \<and>
               m = msg_redeclared_stashable ln (snd key)) \<or>
            (\<exists>key. key \<in> set (poppable l) \<and> snd key \<notin> set (stashable_names l) \<and> key \<in> P n \<and>
               m = msg_redeclared_poppable ln (snd key)) \<or>
            (\<exists>key. key \<in> set (poppable l) \<and> snd key \<notin> set (stashable_names l) \<and> key \<notin> S n \<and>
               m = msg_not_stashed ln (snd key))" for m
          unfolding viol_def cl prod.inject layer.inject by blast
        show ?thesis
          unfolding ns set_eq_iff mem_Collect_eq vv Un_iff image_iff Int_iff Bex_def by blast
      qed
      have 1: "set (stashed (verify_layer (cs ! n) ?st)) = S (Suc n)"
        unfolding cl L(1) S_Suc m ..
      have 2: "set (popped (verify_layer (cs ! n) ?st)) = P (Suc n)"
        unfolding cl L(2) P_Suc p ..
      have 3: "set (msgs (verify_layer (cs ! n) ?st)) = V (Suc n)"
        unfolding cl L(3) V_Suc v by (simp add: Un_assoc)
      from 1 2 3 show ?thesis by (simp add: step)
    qed
  qed
  from inv [of "length cs"]
  have fin: "set (stashed (verify_scan cs)) = S (length cs)"
    "set (popped (verify_scan cs)) = P (length cs)"
    "set (msgs (verify_scan cs)) = V (length cs)"
    by (simp_all add: verify_scan_def)
  have A: "m \<in> set (verify_msgs cs) \<longleftrightarrow>
        m \<in> V (length cs) \<or>
        (\<exists>key. key \<in> S (length cs) \<and> key \<notin> P (length cs) \<and> m = msg_not_poppable (snd key))"
    unfolding verify_msgs_def Let_def using fin by (auto simp: case_prod_beta image_iff)
  have B: "m \<in> V (length cs) \<longleftrightarrow>
     (\<exists>j ln l x. j < length cs \<and> cs ! j = (ln, SkippableLayer l) \<and>
        x \<in> set (stashable_names l) \<and> x \<in> set (poppable_names l) \<and> m = msg_both ln x) \<or>
     (\<exists>j ln l key. j < length cs \<and> cs ! j = (ln, SkippableLayer l) \<and>
        key \<in> set (stashable l) \<and> snd key \<notin> set (poppable_names l) \<and>
        key \<in> S j \<and> m = msg_redeclared_stashable ln (snd key)) \<or>
     (\<exists>j ln l key. j < length cs \<and> cs ! j = (ln, SkippableLayer l) \<and>
        key \<in> set (poppable l) \<and> snd key \<notin> set (stashable_names l) \<and>
        key \<in> P j \<and> m = msg_redeclared_poppable ln (snd key)) \<or>
     (\<exists>j ln l key. j < length cs \<and> cs ! j = (ln, SkippableLayer l) \<and>
        key \<in> set (poppable l) \<and> snd key \<notin> set (stashable_names l) \<and>
        key \<notin> S j \<and> m = msg_not_stashed ln (snd key))"
    unfolding V_def viol_def by blast
  have C: "(\<exists>key. key \<in> S (length cs) \<and> key \<notin> P (length cs) \<and> m = msg_not_poppable (snd key)) \<longleftrightarrow>
     (\<exists>key.
        (\<exists>h<length cs. \<exists>lnh lh. cs ! h = (lnh, SkippableLayer lh) \<and>
           key \<in> set (stashable lh) \<and> snd key \<notin> set (poppable_names lh)) \<and>
        \<not> (\<exists>i<length cs. \<exists>lni li. cs ! i = (lni, SkippableLayer li) \<and>
              key \<in> set (poppable li) \<and> snd key \<notin> set (stashable_names li) \<and>
              (\<exists>h<i. \<exists>lnh lh. cs ! h = (lnh, SkippableLayer lh) \<and>
                 key \<in> set (stashable lh) \<and> snd key \<notin> set (poppable_names lh))) \<and>
        m = msg_not_poppable (snd key))"
    unfolding S_def P_def marks_def pops_def mem_Collect_eq by blast
  have Sj: "key \<in> S j \<longleftrightarrow> (\<exists>i<j. \<exists>lni li. cs ! i = (lni, SkippableLayer li) \<and>
           key \<in> set (stashable li) \<and> snd key \<notin> set (poppable_names li))" for key j
    unfolding S_def marks_def mem_Collect_eq ..
  have Pj: "key \<in> P j \<longleftrightarrow> (\<exists>i<j. \<exists>lni li. cs ! i = (lni, SkippableLayer li) \<and>
           key \<in> set (poppable li) \<and> snd key \<notin> set (stashable_names li) \<and>
           (\<exists>h<i. \<exists>lnh lh. cs ! h = (lnh, SkippableLayer lh) \<and>
              key \<in> set (stashable lh) \<and> snd key \<notin> set (poppable_names lh)))" for key j
    unfolding P_def marks_def pops_def mem_Collect_eq by blast
  show ?thesis unfolding A B C Sj Pj by (simp only: disj_assoc)
qed

text \<open>
  C2: \<open>verify_skippables\<close> raises nothing when the scan has no finding and otherwise one
  \<open>TypeError\<close>, whose text is the header followed by one line \<open>* finding\<close> for every
  finding of the whole scan. The findings are exactly the violations of the sequence (the
  names of a frozenset are distinct), each with its own text: a stage declares a name both
  ways; a stage declares as stashable (and not as poppable) a key that an earlier stage
  declares so too; a stage declares as poppable (and not as stashable) a key that an earlier
  stage has popped, that is, declares as poppable after a yet earlier stage declares it as
  stashable; a stage declares as poppable a key that no earlier stage declares as stashable
  (a stage that declares the name both ways does not count); a key that some stage declares
  as stashable is popped by no later stage. In particular a sequence without violations
  raises nothing: when no stage declares a name both ways, no key is declared stashable
  twice or poppable twice, every poppable key is stashable by an earlier stage and every
  stashable key is poppable by some stage.
\<close>

theorem C2_verify_skippables_reports_all:
  fixes children :: "(string \<times> ('t, 'p) layer) list"
  assumes dist: "\<forall>c\<in>set children. \<forall>l. snd c = SkippableLayer l \<longrightarrow>
                   distinct (stashable_names l) \<and> distinct (poppable_names l)"
  shows
   "verify_skippables children =
      (if verify_msgs children = [] then Inr ()
       else Inl (TypeError
        (''one or more pairs of stash and pop not matched:'' @ [CHR 0x0A, CHR 0x0A] @
         join [CHR 0x0A] (map (\<lambda>x. ''* '' @ x) (verify_msgs children))))) \<and>
    (\<forall>m\<in>set (verify_msgs children).
       sublist (''* '' @ m)
        (''one or more pairs of stash and pop not matched:'' @ [CHR 0x0A, CHR 0x0A] @
         join [CHR 0x0A] (map (\<lambda>x. ''* '' @ x) (verify_msgs children)))) \<and>
    (\<forall>m. m \<in> set (verify_msgs children) \<longleftrightarrow>
       (\<exists>j ln l x. j < length children \<and> children ! j = (ln, SkippableLayer l) \<and>
          x \<in> set (stashable_names l) \<and> x \<in> set (poppable_names l) \<and>
          m = ([CHR 0x27] @ ln @ [CHR 0x27]) @ '' declared '' @ ([CHR 0x27] @ x @ [CHR 0x27]) @
          '' both as stashable and as poppable'') \<or>
       (\<exists>j ln l key. j < length children \<and> children ! j = (ln, SkippableLayer l) \<and>
          key \<in> set (stashable l) \<and> snd key \<notin> set (poppable_names l) \<and>
          (\<exists>i<j. \<exists>lni li. children ! i = (lni, SkippableLayer li) \<and>
             key \<in> set (stashable li) \<and> snd key \<notin> set (poppable_names li)) \<and>
          m = ([CHR 0x27] @ ln @ [CHR 0x27]) @ '' redeclared '' @ ([CHR 0x27] @ snd key @ [CHR 0x27]) @ '' as stashable'') \<or>
       (\<exists>j ln l key. j < length children \<and> children ! j = (ln, SkippableLayer l) \<and>
          key \<in> set (poppable l) \<and> snd key \<notin> set (stashable_names l) \<and>
          (\<exists>i<j. \<exists>lni li. children ! i = (lni, SkippableLayer li) \<and>
             key \<in> set (poppable li) \<and> snd key \<notin> set (stashable_names li) \<and>
             (\<exists>h<i. \<exists>lnh lh. children ! h = (lnh, SkippableLayer lh) \<and>
                key \<in> set (stashable lh) \<and> snd key \<notin> set (poppable_names lh))) \<and>
          m = ([CHR 0x27] @ ln @ [CHR 0x27]) @ '' redeclared '' @ ([CHR 0x27] @ snd key @ [CHR 0x27]) @ '' as poppable'') \<or>
       (\<exists>j ln l key. j < length children \<and> children ! j = (ln, SkippableLayer l) \<and>
          key \<in> set (poppable l) \<and> snd key \<notin> set (stashable_names l) \<and>
          \<not> (\<exists>h<j. \<exists>lnh lh. children ! h = (lnh, SkippableLayer lh) \<and>
                key \<in> set (stashable lh) \<and> snd key \<notin> set (poppable_names lh)) \<and>
          m = ([CHR 0x27] @ ln @ [CHR 0x27]) @ '' declared '' @ ([CHR 0x27] @ snd key @ [CHR 0x27]) @
          '' as poppable but it was not stashed'') \<or>
       (\<exists>key.
          (\<exists>h<length children. \<exists>lnh lh. children ! h = (lnh, SkippableLayer lh) \<and>
             key \<in> set (stashable lh) \<and> snd key \<notin> set (poppable_names lh)) \<and>
          \<not> (\<exists>i<length children. \<exists>lni li. children ! i = (lni, SkippableLayer li) \<and>
                key \<in> set (poppable li) \<and> snd key \<notin> set (stashable_names li) \<and>
                (\<exists>h<i. \<exists>lnh lh. children ! h = (lnh, SkippableLayer lh) \<and>
                   key \<in> set (stashable lh) \<and> snd key \<notin> set (poppable_names lh))) \<and>
          m = ''any module did not declare '' @ ([CHR 0x27] @ snd key @ [CHR 0x27]) @ '' as poppable'')) \<and>
    (((\<forall>i<length children. \<forall>ln l. children ! i = (ln, SkippableLayer l) \<longrightarrow>
       set (stashable_names l) \<inter> set (poppable_names l) = {}) \<and>
    (\<forall>j<length children. \<forall>i<j. \<forall>lni li lnj lj. children ! i = (lni, SkippableLayer li) \<and>
       children ! j = (lnj, SkippableLayer lj) \<longrightarrow> set (stashable li) \<inter> set (stashable lj) = {}) \<and>
    (\<forall>j<length children. \<forall>i<j. \<forall>lni li lnj lj. children ! i = (lni, SkippableLayer li) \<and>
       children ! j = (lnj, SkippableLayer lj) \<longrightarrow> set (poppable li) \<inter> set (poppable lj) = {}) \<and>
    (\<forall>j<length children. \<forall>lnj lj. children ! j = (lnj, SkippableLayer lj) \<longrightarrow>
       (\<forall>key\<in>set (poppable lj). \<exists>i<j. \<exists>lni li. children ! i = (lni, SkippableLayer li) \<and>
          key \<in> set (stashable li))) \<and>
    (\<forall>i<length children. \<forall>lni li. children ! i = (lni, SkippableLayer li) \<longrightarrow>
       (\<forall>key\<in>set (stashable li). \<exists>j<length children. \<exists>lnj lj.
          children ! j = (lnj, SkippableLayer lj) \<and> key \<in> set (poppable lj)))) \<longrightarrow>
     verify_skippables children = Inr ())"
proof (intro conjI allI impI ballI)
  show "verify_skippables children =
      (if verify_msgs children = [] then Inr ()
       else Inl (TypeError
        (''one or more pairs of stash and pop not matched:'' @ [CHR 0x0A, CHR 0x0A] @
         join [CHR 0x0A] (map (\<lambda>x. ''* '' @ x) (verify_msgs children)))))"
    by (simp add: verify_skippables_def verify_error_def)
next
  fix m assume "m \<in> set (verify_msgs children)"
  then have "sublist (''* '' @ m) (join [CHR 0x0A] (map (\<lambda>x. ''* '' @ x) (verify_msgs children)))"
    by (intro sublist_join) simp
  then show "sublist (''* '' @ m)
        (''one or more pairs of stash and pop not matched:'' @ [CHR 0x0A, CHR 0x0A] @
         join [CHR 0x0A] (map (\<lambda>x. ''* '' @ x) (verify_msgs children)))"
    by (intro sublist_append_left)
next
  fix m
  show "m \<in> set (verify_msgs children) \<longleftrightarrow>
       (\<exists>j ln l x. j < length children \<and> children ! j = (ln, SkippableLayer l) \<and>
          x \<in> set (stashable_names l) \<and> x \<in> set (poppable_names l) \<and>
          m = ([CHR 0x27] @ ln @ [CHR 0x27]) @ '' declared '' @ ([CHR 0x27] @ x @ [CHR 0x27]) @
          '' both as stashable and as poppable'') \<or>
       (\<exists>j ln l key. j < length children \<and> children ! j = (ln, SkippableLayer l) \<and>
          key \<in> set (stashable l) \<and> snd key \<notin> set (poppable_names l) \<and>
          (\<exists>i<j. \<exists>lni li. children ! i = (lni, SkippableLayer li) \<and>
             key \<in> set (stashable li) \<and> snd key \<notin> set (poppable_names li)) \<and>
          m = ([CHR 0x27] @ ln @ [CHR 0x27]) @ '' redeclared '' @ ([CHR 0x27] @ snd key @ [CHR 0x27]) @ '' as stashable'') \<or>
       (\<exists>j ln l key. j < length children \<and> children ! j = (ln, SkippableLayer l) \<and>
          key \<in> set (poppable l) \<and> snd key \<notin> set (stashable_names l) \<and>
          (\<exists>i<j. \<exists>lni li. children ! i = (lni, SkippableLayer li) \<and>
             key \<in> set (poppable li) \<and> snd key \<notin> set (stashable_names li) \<and>
             (\<exists>h<i. \<exists>lnh lh. children ! h = (lnh, SkippableLayer lh) \<and>
                key \<in> set (stashable lh) \<and> snd key \<notin> set (poppable_names lh))) \<and>
          m = ([CHR 0x27] @ ln @ [CHR 0x27]) @ '' redeclared '' @ ([CHR 0x27] @ snd key @ [CHR 0x27]) @ '' as poppable'') \<or>
       (\<exists>j ln l key. j < length children \<and> children ! j = (ln, SkippableLayer l) \<and>
          key \<in> set (poppable l) \<and> snd key \<notin> set (stashable_names l) \<and>
          \<not> (\<exists>h<j. \<exists>lnh lh. children ! h = (lnh, SkippableLayer lh) \<and>
                key \<in> set (stashable lh) \<and> snd key \<notin> set (poppable_names lh)) \<and>
          m = ([CHR 0x27] @ ln @ [CHR 0x27]) @ '' declared '' @ ([CHR 0x27] @ snd key @ [CHR 0x27]) @
          '' as poppable but it was not stashed'') \<or>
       (\<exists>key.
          (\<exists>h<length children. \<exists>lnh lh. children ! h = (lnh, SkippableLayer lh) \<and>
             key \<in> set (stashable lh) \<and> snd key \<notin> set (poppable_names lh)) \<and>
          \<not> (\<exists>i<length children. \<exists>lni li. children ! i = (lni, SkippableLayer li) \<and>
                key \<in> set (poppable li) \<and> snd key \<notin> set (stashable_names li) \<and>
                (\<exists>h<i. \<exists>lnh lh. children ! h = (lnh, SkippableLayer lh) \<and>
                   key \<in> set (stashable lh) \<and> snd key \<notin> set (poppable_names lh))) \<and>
          m = ''any module did not declare '' @ ([CHR 0x27] @ snd key @ [CHR 0x27]) @ '' as poppable'')"
    by (rule verify_msgs_exact [OF dist, of m, unfolded msg_both_def msg_redeclared_stashable_def
          msg_redeclared_poppable_def msg_not_stashed_def msg_not_poppable_def quoted_def])
next
  assume wf: "((\<forall>i<length children. \<forall>ln l. children ! i = (ln, SkippableLayer l) \<longrightarrow>
       set (stashable_names l) \<inter> set (poppable_names l) = {}) \<and>
    (\<forall>j<length children. \<forall>i<j. \<forall>lni li lnj lj. children ! i = (lni, SkippableLayer li) \<and>
       children ! j = (lnj, SkippableLayer lj) \<longrightarrow> set (stashable li) \<inter> set (stashable lj) = {}) \<and>
    (\<forall>j<length children. \<forall>i<j. \<forall>lni li lnj lj. children ! i = (lni, SkippableLayer li) \<and>
       children ! j = (lnj, SkippableLayer lj) \<longrightarrow> set (poppable li) \<inter> set (poppable lj) = {}) \<and>
    (\<forall>j<length children. \<forall>lnj lj. children ! j = (lnj, SkippableLayer lj) \<longrightarrow>
       (\<forall>key\<in>set (poppable lj). \<exists>i<j. \<exists>lni li. children ! i = (lni, SkippableLayer li) \<and>
          key \<in> set (stashable li))) \<and>
    (\<forall>i<length children. \<forall>lni li. children ! i = (lni, SkippableLayer li) \<longrightarrow>
       (\<forall>key\<in>set (stashable li). \<exists>j<length children. \<exists>lnj lj.
          children ! j = (lnj, SkippableLayer lj) \<and> key \<in> set (poppable lj))))"
  have d: "\<forall>i<length children. \<forall>ln l. children ! i = (ln, SkippableLayer l) \<longrightarrow>
                 distinct (stashable_names l) \<and> distinct (poppable_names l) \<and>
                 set (stashable_names l) \<inter> set (poppable_names l) = {}"
  proof (intro allI impI)
    fix i ln l assume i: "i < length children" "children ! i = (ln, SkippableLayer l)"
    have mem: "children ! i \<in> set children" using i(1) by (rule nth_mem)
    have "snd (children ! i) = SkippableLayer l" using i(2) by simp
    with dist mem have "distinct (stashable_names l) \<and> distinct (poppable_names l)"
      by blast
    moreover have "set (stashable_names l) \<inter> set (poppable_names l) = {}"
      using wf [THEN conjunct1] i by blast
    ultimately show "distinct (stashable_names l) \<and> distinct (poppable_names l) \<and>
                 set (stashable_names l) \<inter> set (poppable_names l) = {}"
      by simp
  qed
  have "verify_msgs children = []"
    by (rule verify_well_formed [OF d wf [THEN conjunct2, THEN conjunct1]
          wf [THEN conjunct2, THEN conjunct2, THEN conjunct1]
          wf [THEN conjunct2, THEN conjunct2, THEN conjunct2, THEN conjunct1]
          wf [THEN conjunct2, THEN conjunct2, THEN conjunct2, THEN conjunct2]])
  then show "verify_skippables children = Inr ()" by (simp add: verify_skippables_def)
qed

text \<open>
  C2, a witness: \<open>stash s, pop s, pop s\<close> has a duplicate pop; \<open>stash u and pop u,
  pop u\<close> has a self-conflict and a pop that follows it; \<open>stash s, pop t, stash s\<close> has
  an unmatched pop, a stash that is never popped and a duplicate stash; each error mentions
  all of its violations. \<open>stash s\<close>, an ordinary module, \<open>pop s\<close> has no violation.
\<close>

theorem C2_verify_skippables_reports_all_witness:
  "(\<exists>e. verify_skippables
     [(''0'', SkippableLayer (init 1 (\<lambda>x::nat. (Output x :: (nat, nat) module_result)) [''s''] [])),
      (''1'', SkippableLayer (init 2 (\<lambda>x::nat. (Output x :: (nat, nat) module_result)) [] [''s''])),
      (''2'', SkippableLayer (init 3 (\<lambda>x::nat. (Output x :: (nat, nat) module_result)) [] [''s'']))] = Inl (TypeError e) \<and>
      sublist (''* '' @ ([CHR 0x27] @ ''2'' @ [CHR 0x27]) @ '' redeclared '' @ ([CHR 0x27] @ ''s'' @ [CHR 0x27]) @ '' as poppable'') e) \<and>
   (\<exists>e. verify_skippables
     [(''0'', SkippableLayer (init 4 (\<lambda>x::nat. (Output x :: (nat, nat) module_result)) [''u''] [''u''])),
      (''1'', SkippableLayer (init 5 (\<lambda>x::nat. (Output x :: (nat, nat) module_result)) [] [''u'']))] = Inl (TypeError e) \<and>
      sublist (''* '' @ ([CHR 0x27] @ ''0'' @ [CHR 0x27]) @ '' declared '' @ ([CHR 0x27] @ ''u'' @ [CHR 0x27]) @ '' both as stashable and as poppable'') e \<and>
      sublist (''* '' @ ([CHR 0x27] @ ''1'' @ [CHR 0x27]) @ '' declared '' @ ([CHR 0x27] @ ''u'' @ [CHR 0x27]) @ '' as poppable but it was not stashed'') e) \<and>
   (\<exists>e. verify_skippables
     [(''0'', SkippableLayer (init 1 (\<lambda>x::nat. (Output x :: (nat, nat) module_result)) [''s''] [])),
      (''1'', SkippableLayer (init 2 (\<lambda>x::nat. (Output x :: (nat, nat) module_result)) [] [''t''])),
      (''2'', SkippableLayer (init 3 (\<lambda>x::nat. (Output x :: (nat, nat) module_result)) [''s''] []))] = Inl (TypeError e) \<and>
      sublist (''* '' @ ([CHR 0x27] @ ''1'' @ [CHR 0x27]) @ '' declared '' @ ([CHR 0x27] @ ''t'' @ [CHR 0x27]) @ '' as poppable but it was not stashed'') e \<and>
      sublist (''* '' @ ''any module did not declare '' @ ([CHR 0x27] @ ''s'' @ [CHR 0x27]) @ '' as poppable'') e \<and>
      sublist (''* '' @ ([CHR 0x27] @ ''2'' @ [CHR 0x27]) @ '' redeclared '' @ ([CHR 0x27] @ ''s'' @ [CHR 0x27]) @ '' as stashable'') e) \<and>
   verify_skippables
     [(''0'', SkippableLayer (init 1 (\<lambda>x::nat. (Output x :: (nat, nat) module_result)) [''s''] [])),
      (''1'', OtherLayer),
      (''2'', SkippableLayer (init 2 (\<lambda>x::nat. (Output x :: (nat, nat) module_result)) [] [''s'']))] = Inr ()"
proof -
  let ?A = "init 1 (\<lambda>x::nat. (Output x :: (nat, nat) module_result)) [''s''] []"
  let ?P2 = "init 2 (\<lambda>x::nat. (Output x :: (nat, nat) module_result)) [] [''s'']"
  let ?P3 = "init 3 (\<lambda>x::nat. (Output x :: (nat, nat) module_result)) [] [''s'']"
  let ?B = "init 4 (\<lambda>x::nat. (Output x :: (nat, nat) module_result)) [''u''] [''u'']"
  let ?P5 = "init 5 (\<lambda>x::nat. (Output x :: (nat, nat) module_result)) [] [''u'']"
  let ?T = "init 2 (\<lambda>x::nat. (Output x :: (nat, nat) module_result)) [] [''t'']"
  let ?A3 = "init 3 (\<lambda>x::nat. (Output x :: (nat, nat) module_result)) [''s''] []"
  let ?V1 = "[(''0'', SkippableLayer ?A), (''1'', SkippableLayer ?P2), (''2'', SkippableLayer ?P3)]"
  let ?V2 = "[(''0'', SkippableLayer ?B), (''1'', SkippableLayer ?P5)]"
  let ?V3 = "[(''0'', SkippableLayer ?A), (''1'', SkippableLayer ?T), (''2'', SkippableLayer ?A3)]"
  let ?W = "[(''0'', SkippableLayer ?A), (''1'', OtherLayer), (''2'', SkippableLayer ?P2)]"
  have ex1: "(\<exists>j<Suc 0. P j) \<longleftrightarrow> P 0" for P by auto
  have ex2: "(\<exists>j<Suc (Suc 0). P j) \<longleftrightarrow> P 0 \<or> P (Suc 0)" for P
    by (auto simp: less_Suc_eq)
  have ex3: "(\<exists>j<Suc (Suc (Suc 0)). P j) \<longleftrightarrow> P 0 \<or> P (Suc 0) \<or> P (Suc (Suc 0))" for P
    by (auto simp: less_Suc_eq)
  have all2: "(\<forall>j<Suc (Suc 0). P j) \<longleftrightarrow> P 0 \<and> P (Suc 0)" for P
    by (auto simp: less_Suc_eq)
  have all3: "(\<forall>j<Suc (Suc (Suc 0)). P j) \<longleftrightarrow> P 0 \<and> P (Suc 0) \<and> P (Suc (Suc 0))" for P
    by (auto simp: less_Suc_eq)
  note defs = init_def stashable_def poppable_def namespaced_def
  have d1: "\<forall>c\<in>set ?V1. \<forall>l. snd c = SkippableLayer l \<longrightarrow>
              distinct (stashable_names l) \<and> distinct (poppable_names l)"
    by (simp add: init_def)
  have d2: "\<forall>c\<in>set ?V2. \<forall>l. snd c = SkippableLayer l \<longrightarrow>
              distinct (stashable_names l) \<and> distinct (poppable_names l)"
    by (simp add: init_def)
  have d3: "\<forall>c\<in>set ?V3. \<forall>l. snd c = SkippableLayer l \<longrightarrow>
              distinct (stashable_names l) \<and> distinct (poppable_names l)"
    by (simp add: init_def)
  have dw: "\<forall>c\<in>set ?W. \<forall>l. snd c = SkippableLayer l \<longrightarrow>
              distinct (stashable_names l) \<and> distinct (poppable_names l)"
    by (simp add: init_def)
  note T1 = C2_verify_skippables_reports_all [OF d1]
  note T2 = C2_verify_skippables_reports_all [OF d2]
  note T3 = C2_verify_skippables_reports_all [OF d3]
  note TW = C2_verify_skippables_reports_all [OF dw]
  note I1 = T1 [THEN conjunct2, THEN conjunct2, THEN conjunct1, rule_format, THEN iffD2]
  note I2 = T2 [THEN conjunct2, THEN conjunct2, THEN conjunct1, rule_format, THEN iffD2]
  note I3 = T3 [THEN conjunct2, THEN conjunct2, THEN conjunct1, rule_format, THEN iffD2]
  have m1: "([CHR 0x27] @ ''2'' @ [CHR 0x27]) @ '' redeclared '' @ ([CHR 0x27] @ ''s'' @ [CHR 0x27]) @ '' as poppable'' \<in> set (verify_msgs ?V1)"
    apply (rule I1)
    apply (rule disjI2, rule disjI2, rule disjI1)
    apply (rule exI [of _ "Suc (Suc 0)"], rule exI [of _ "''2''"], rule exI [of _ ?P3],
           rule exI [of _ "(None, ''s'')"])
    apply (simp add: defs ex1 ex2)
    done
  have m2a: "([CHR 0x27] @ ''0'' @ [CHR 0x27]) @ '' declared '' @ ([CHR 0x27] @ ''u'' @ [CHR 0x27]) @ '' both as stashable and as poppable'' \<in> set (verify_msgs ?V2)"
    apply (rule I2)
    apply (rule disjI1)
    apply (rule exI [of _ "0"], rule exI [of _ "''0''"], rule exI [of _ ?B], rule exI [of _ "''u''"])
    apply (simp add: defs)
    done
  have m2b: "([CHR 0x27] @ ''1'' @ [CHR 0x27]) @ '' declared '' @ ([CHR 0x27] @ ''u'' @ [CHR 0x27]) @ '' as poppable but it was not stashed'' \<in> set (verify_msgs ?V2)"
    apply (rule I2)
    apply (rule disjI2, rule disjI2, rule disjI2, rule disjI1)
    apply (rule exI [of _ "Suc 0"], rule exI [of _ "''1''"], rule exI [of _ ?P5],
           rule exI [of _ "(None, ''u'')"])
    apply (simp add: defs ex1)
    done
  have m3a: "([CHR 0x27] @ ''1'' @ [CHR 0x27]) @ '' declared '' @ ([CHR 0x27] @ ''t'' @ [CHR 0x27]) @ '' as poppable but it was not stashed'' \<in> set (verify_msgs ?V3)"
    apply (rule I3)
    apply (rule disjI2, rule disjI2, rule disjI2, rule disjI1)
    apply (rule exI [of _ "Suc 0"], rule exI [of _ "''1''"], rule exI [of _ ?T],
           rule exI [of _ "(None, ''t'')"])
    apply (simp add: defs ex1)
    done
  have m3b: "''any module did not declare '' @ ([CHR 0x27] @ ''s'' @ [CHR 0x27]) @ '' as poppable'' \<in> set (verify_msgs ?V3)"
    apply (rule I3)
    apply (rule disjI2, rule disjI2, rule disjI2, rule disjI2)
    apply (rule exI [of _ "(None, ''s'')"])
    apply (simp add: defs ex1 ex2 ex3)
    done
  have m3c: "([CHR 0x27] @ ''2'' @ [CHR 0x27]) @ '' redeclared '' @ ([CHR 0x27] @ ''s'' @ [CHR 0x27]) @ '' as stashable'' \<in> set (verify_msgs ?V3)"
    apply (rule I3)
    apply (rule disjI2, rule disjI1)
    apply (rule exI [of _ "Suc (Suc 0)"], rule exI [of _ "''2''"], rule exI [of _ ?A3],
           rule exI [of _ "(None, ''s'')"])
    apply (simp add: defs ex1 ex2)
    done
  have e1: "verify_skippables ?V1 = Inl (TypeError
      (''one or more pairs of stash and pop not matched:'' @ [CHR 0x0A, CHR 0x0A] @
       join [CHR 0x0A] (map (\<lambda>x. ''* '' @ x) (verify_msgs ?V1))))"
    using T1 [THEN conjunct1] m1 by auto
  have e2: "verify_skippables ?V2 = Inl (TypeError
      (''one or more pairs of stash and pop not matched:'' @ [CHR 0x0A, CHR 0x0A] @
       join [CHR 0x0A] (map (\<lambda>x. ''* '' @ x) (verify_msgs ?V2))))"
    using T2 [THEN conjunct1] m2a by auto
  have e3: "verify_skippables ?V3 = Inl (TypeError
      (''one or more pairs of stash and pop not matched:'' @ [CHR 0x0A, CHR 0x0A] @
       join [CHR 0x0A] (map (\<lambda>x. ''* '' @ x) (verify_msgs ?V3))))"
    using T3 [THEN conjunct1] m3a by auto
  note S1 = T1 [THEN conjunct2, THEN conjunct1, rule_format]
  note S2 = T2 [THEN conjunct2, THEN conjunct1, rule_format]
  note S3 = T3 [THEN conjunct2, THEN conjunct1, rule_format]
  have 1: "\<exists>e. verify_skippables ?V1 = Inl (TypeError e) \<and>
      sublist (''* '' @ ([CHR 0x27] @ ''2'' @ [CHR 0x27]) @ '' redeclared '' @ ([CHR 0x27] @ ''s'' @ [CHR 0x27]) @ '' as poppable'') e"
    using e1 S1 [OF m1] by (intro exI conjI)
  have 2: "\<exists>e. verify_skippables ?V2 = Inl (TypeError e) \<and>
      sublist (''* '' @ ([CHR 0x27] @ ''0'' @ [CHR 0x27]) @ '' declared '' @ ([CHR 0x27] @ ''u'' @ [CHR 0x27]) @ '' both as stashable and as poppable'') e \<and>
      sublist (''* '' @ ([CHR 0x27] @ ''1'' @ [CHR 0x27]) @ '' declared '' @ ([CHR 0x27] @ ''u'' @ [CHR 0x27]) @ '' as poppable but it was not stashed'') e"
    using e2 S2 [OF m2a] S2 [OF m2b] by (intro exI conjI)
  have 3: "\<exists>e. verify_skippables ?V3 = Inl (TypeError e) \<and>
      sublist (''* '' @ ([CHR 0x27] @ ''1'' @ [CHR 0x27]) @ '' declared '' @ ([CHR 0x27] @ ''t'' @ [CHR 0x27]) @ '' as poppable but it was not stashed'') e \<and>
      sublist (''* '' @ ''any module did not declare '' @ ([CHR 0x27] @ ''s'' @ [CHR 0x27]) @ '' as poppable'') e \<and>
      sublist (''* '' @ ([CHR 0x27] @ ''2'' @ [CHR 0x27]) @ '' redeclared '' @ ([CHR 0x27] @ ''s'' @ [CHR 0x27]) @ '' as stashable'') e"
    using e3 S3 [OF m3a] S3 [OF m3b] S3 [OF m3c] by (intro exI conjI)
  have w: "(\<forall>i<length ?W. \<forall>ln l. ?W ! i = (ln, SkippableLayer l) \<longrightarrow>
       set (stashable_names l) \<inter> set (poppable_names l) = {}) \<and>
    (\<forall>j<length ?W. \<forall>i<j. \<forall>lni li lnj lj. ?W ! i = (lni, SkippableLayer li) \<and>
       ?W ! j = (lnj, SkippableLayer lj) \<longrightarrow> set (stashable li) \<inter> set (stashable lj) = {}) \<and>
    (\<forall>j<length ?W. \<forall>i<j. \<forall>lni li lnj lj. ?W ! i = (lni, SkippableLayer li) \<and>
       ?W ! j = (lnj, SkippableLayer lj) \<longrightarrow> set (poppable li) \<inter> set (poppable lj) = {}) \<and>
    (\<forall>j<length ?W. \<forall>lnj lj. ?W ! j = (lnj, SkippableLayer lj) \<longrightarrow>
       (\<forall>key\<in>set (poppable lj). \<exists>i<j. \<exists>lni li. ?W ! i = (lni, SkippableLayer li) \<and>
          key \<in> set (stashable li))) \<and>
    (\<forall>i<length ?W. \<forall>lni li. ?W ! i = (lni, SkippableLayer li) \<longrightarrow>
       (\<forall>key\<in>set (stashable li). \<exists>j<length ?W. \<exists>lnj lj.
          ?W ! j = (lnj, SkippableLayer lj) \<and> key \<in> set (poppable lj)))"
    by (simp add: all3 all2 ex3 ex2 defs)
  have 4: "verify_skippables ?W = Inr ()"
    by (rule TW [THEN conjunct2, THEN conjunct2, THEN conjunct2, THEN mp, OF w])
  from 1 2 3 4 show ?thesis by (intro conjI)
qed

end
